theory Spec2Isabelle
  imports Complex_Main
begin

section \<open>Python values, exceptions and the outside world\<close>

text \<open>
  The backend (\<^verbatim>\<open>src/backend/main.py\<close>) is HTTP glue: it parses nothing itself, it
  moves Python dictionaries between a web endpoint, the Pioneer API and the OpenAI client.
  The values it handles are the ones JSON can carry.  A dictionary is an association
  list in insertion order, read with \<open>map_of\<close>.  A float is given by the rational
  value of its decimal literal (the code has two, 0.25 and 0.7, and never computes with
  them).
\<close>

datatype pyval =
    PNone
  | PBool bool
  | PInt int
  | PFloat rat
  | PStr string
  | PList "pyval list"
  | PDict "(string \<times> pyval) list"

text \<open>
  Every exception the code can meet is a subclass of Python's \<^verbatim>\<open>Exception\<close>:
  FastAPI's \<^verbatim>\<open>HTTPException(status_code, detail)\<close>, the built-in errors of the
  operations below, pydantic's validation error, and whatever the HTTP client or the
  OpenAI client raises (a transport error, a timeout, an API error), with a description.
  A handler \<^verbatim>\<open>except Exception\<close> therefore catches every value of this type.
\<close>

datatype exn =
    HTTPException int string
  | TypeError
  | KeyError string
  | IndexError
  | AttributeError
  | JSONDecodeError
  | ValidationError
  | ClientError string

text \<open>
  What an HTTP call gives back: \<^verbatim>\<open>response.status_code\<close>,
  \<^verbatim>\<open>response.text\<close> and the outcome of \<^verbatim>\<open>response.json()\<close>
  (\<open>None\<close> when the body is not JSON and the call raises).
\<close>

record http_response =
  status_code :: int
  response_text :: string
  json :: "pyval option"

text \<open>The keyword arguments of \<^verbatim>\<open>openai_client.chat.completions.create\<close>.\<close>

record completion_request =
  model :: string
  messages :: "pyval list"
  temperature :: rat
  max_tokens :: int
  tools :: "pyval list"

text \<open>
  Of a completion the code reads \<^verbatim>\<open>choices[0].message.content\<close> only: a choice is
  its message's content, which the OpenAI client types as an optional string.
\<close>

record completion =
  choices :: "string option list"

text \<open>
  The world outside the process: the two HTTP verbs the code uses (by URL and by the
  dictionary sent as JSON body or as query parameters; the constant API-key header and
  the timeouts are left out), the completion service, the clock (the text
  \<^verbatim>\<open>datetime.utcnow().isoformat()\<close> gives at the n-th reading), and Python's
  \<^verbatim>\<open>str\<close> on a value that is not a string and on an exception.
\<close>

record world =
  http_post :: "string \<Rightarrow> pyval \<Rightarrow> exn + http_response"
  http_get :: "string \<Rightarrow> pyval \<Rightarrow> exn + http_response"
  completions_create :: "completion_request \<Rightarrow> exn + completion"
  utcnow_isoformat :: "nat \<Rightarrow> string"
  str_value :: "pyval \<Rightarrow> string"
  str_exception :: "exn \<Rightarrow> string"

text \<open>Every call that leaves the process is recorded, in order.\<close>

datatype call =
    HttpPost string pyval
  | HttpGet string pyval
  | CompletionsCreate completion_request

record state =
  ticks :: nat
  calls :: "call list"
  printed :: "string list"

definition fresh :: state where
  "fresh = \<lparr>ticks = 0, calls = [], printed = []\<rparr>"

subsection \<open>Effects: a state and exception monad, written out\<close>

type_synonym 'a io = "state \<Rightarrow> (exn + 'a) \<times> state"

definition ret :: "'a \<Rightarrow> 'a io" where
  "ret x = (\<lambda>s. (Inr x, s))"

definition raise :: "exn \<Rightarrow> 'a io" where
  "raise e = (\<lambda>s. (Inl e, s))"

definition lift :: "exn + 'a \<Rightarrow> 'a io" where
  "lift r = (\<lambda>s. (r, s))"

definition bind :: "'a io \<Rightarrow> ('a \<Rightarrow> 'b io) \<Rightarrow> 'b io" where
  "bind m f = (\<lambda>s. case m s of (Inl e, s') \<Rightarrow> (Inl e, s') | (Inr x, s') \<Rightarrow> f x s')"

text \<open>\<^verbatim>\<open>try: m  except Exception as e: h(e)\<close>\<close>

definition try_except :: "'a io \<Rightarrow> (exn \<Rightarrow> 'a io) \<Rightarrow> 'a io" where
  "try_except m h = (\<lambda>s. case m s of (Inl e, s') \<Rightarrow> h e s' | (Inr x, s') \<Rightarrow> (Inr x, s'))"

definition py_print :: "string \<Rightarrow> unit io" where
  "py_print line = (\<lambda>s. (Inr (), s\<lparr>printed := printed s @ [line]\<rparr>))"

text \<open>\<^verbatim>\<open>datetime.utcnow().isoformat() + "Z"\<close>\<close>

definition utcnow_z :: "world \<Rightarrow> string io" where
  "utcnow_z w = (\<lambda>s. (Inr (utcnow_isoformat w (ticks s) @ ''Z''), s\<lparr>ticks := Suc (ticks s)\<rparr>))"

definition client_post :: "world \<Rightarrow> string \<Rightarrow> pyval \<Rightarrow> http_response io" where
  "client_post w url payload =
     (\<lambda>s. (http_post w url payload, s\<lparr>calls := calls s @ [HttpPost url payload]\<rparr>))"

definition client_get :: "world \<Rightarrow> string \<Rightarrow> pyval \<Rightarrow> http_response io" where
  "client_get w url params =
     (\<lambda>s. (http_get w url params, s\<lparr>calls := calls s @ [HttpGet url params]\<rparr>))"

definition openai_create :: "world \<Rightarrow> completion_request \<Rightarrow> completion io" where
  "openai_create w rq =
     (\<lambda>s. (completions_create w rq, s\<lparr>calls := calls s @ [CompletionsCreate rq]\<rparr>))"

subsection \<open>The Python operations the code applies\<close>

text \<open>Truth value of a value, as \<^verbatim>\<open>if v:\<close> tests it.\<close>

fun truthy :: "pyval \<Rightarrow> bool" where
  "truthy PNone = False"
| "truthy (PBool b) = b"
| "truthy (PInt i) = (i \<noteq> 0)"
| "truthy (PFloat r) = (r \<noteq> 0)"
| "truthy (PStr s) = (s \<noteq> [])"
| "truthy (PList xs) = (xs \<noteq> [])"
| "truthy (PDict kvs) = (kvs \<noteq> [])"

text \<open>An optional string field of a request, as a Python value.\<close>

definition opt_str :: "string option \<Rightarrow> pyval" where
  "opt_str v = (case v of None \<Rightarrow> PNone | Some s \<Rightarrow> PStr s)"

text \<open>\<^verbatim>\<open>len(v)\<close>\<close>

fun py_len :: "pyval \<Rightarrow> exn + nat" where
  "py_len (PStr s) = Inr (length s)"
| "py_len (PList xs) = Inr (length xs)"
| "py_len (PDict kvs) = Inr (length kvs)"
| "py_len v = Inl TypeError"

text \<open>
  \<^verbatim>\<open>v[:100]\<close>: a prefix of a string or a list; a dictionary cannot be sliced and the
  other values cannot be subscripted at all.
\<close>

fun py_slice100 :: "pyval \<Rightarrow> exn + pyval" where
  "py_slice100 (PStr s) = Inr (PStr (take 100 s))"
| "py_slice100 (PList xs) = Inr (PList (take 100 xs))"
| "py_slice100 v = Inl TypeError"

text \<open>\<^verbatim>\<open>for x in v\<close>: the elements of a list, the characters of a string, the keys of a dictionary.\<close>

fun py_iter :: "pyval \<Rightarrow> exn + pyval list" where
  "py_iter (PList xs) = Inr xs"
| "py_iter (PStr s) = Inr (map (\<lambda>c. PStr [c]) s)"
| "py_iter (PDict kvs) = Inr (map (\<lambda>kv. PStr (fst kv)) kvs)"
| "py_iter v = Inl TypeError"

text \<open>\<^verbatim>\<open>v[key]\<close> with a string key.\<close>

fun py_getitem :: "pyval \<Rightarrow> string \<Rightarrow> exn + pyval" where
  "py_getitem (PDict kvs) k = (case map_of kvs k of None \<Rightarrow> Inl (KeyError k) | Some v \<Rightarrow> Inr v)"
| "py_getitem v k = Inl TypeError"

text \<open>\<^verbatim>\<open>v.get(key, default)\<close>: only a dictionary has the method.\<close>

fun py_get :: "pyval \<Rightarrow> string \<Rightarrow> pyval \<Rightarrow> exn + pyval" where
  "py_get (PDict kvs) k d = (case map_of kvs k of None \<Rightarrow> Inr d | Some v \<Rightarrow> Inr v)"
| "py_get v k d = Inl AttributeError"

text \<open>\<^verbatim>\<open>response.json()\<close>\<close>

definition response_json :: "http_response \<Rightarrow> exn + pyval" where
  "response_json r = (case json r of None \<Rightarrow> Inl JSONDecodeError | Some v \<Rightarrow> Inr v)"

text \<open>A value inside an f-string: a string is inserted as it is, any other value through \<^verbatim>\<open>str\<close>.\<close>

definition format_value :: "world \<Rightarrow> pyval \<Rightarrow> string" where
  "format_value w v = (case v of PStr s \<Rightarrow> s | _ \<Rightarrow> str_value w v)"

text \<open>\<^verbatim>\<open>str(n)\<close> for an integer: its decimal digits.\<close>

function str_nat :: "nat \<Rightarrow> string" where
  "str_nat n = (if n < 10 then [char_of (48 + n)] else str_nat (n div 10) @ [char_of (48 + n mod 10)])"
  by pat_completeness auto
termination
  by (relation "measure id") auto

declare str_nat.simps [simp del]

definition str_int :: "int \<Rightarrow> string" where
  "str_int i = (if i < 0 then CHR ''-'' # str_nat (nat (- i)) else str_nat (nat i))"

text \<open>\<^verbatim>\<open>sep.join(parts)\<close>\<close>

fun join :: "string \<Rightarrow> string list \<Rightarrow> string" where
  "join sep [] = []"
| "join sep [x] = x"
| "join sep (x # y # ys) = x @ sep @ join sep (y # ys)"

text \<open>A list comprehension whose element expression may raise: it stops at the first exception.\<close>

fun map_result :: "('a \<Rightarrow> exn + 'b) \<Rightarrow> 'a list \<Rightarrow> exn + 'b list" where
  "map_result f [] = Inr []"
| "map_result f (x # xs) =
     (case f x of
        Inl e \<Rightarrow> Inl e
      | Inr y \<Rightarrow> (case map_result f xs of Inl e \<Rightarrow> Inl e | Inr ys \<Rightarrow> Inr (y # ys)))"

section \<open>The request and response models\<close>

record Message =
  role :: string
  content :: string
  timestamp :: "string option"

record ChatRequest =
  message :: string
  conversation_history :: "Message list"
  user_id :: "string option"
  user_email :: "string option"

record ChatResponse =
  response :: string
  relevant_context :: "pyval list option"
  user_profile :: "string option"

record RegisterUserRequest =
  email :: string
  name :: "string option"
  timezone :: "string option"

text \<open>
  \<^verbatim>\<open>msg.model_dump()\<close> of a \<^verbatim>\<open>Message\<close>: pydantic dumps every field, a field that
  is \<^verbatim>\<open>None\<close> included, so the key \<^verbatim>\<open>timestamp\<close> is always there.
\<close>

definition model_dump :: "Message \<Rightarrow> pyval" where
  "model_dump m =
     PDict [(''role'', PStr (role m)), (''content'', PStr (content m)),
            (''timestamp'', opt_str (timestamp m))]"

text \<open>
  \<^verbatim>\<open>ChatResponse(response=..., relevant_context=..., user_profile=...)\<close>: pydantic
  validates the three arguments against \<^verbatim>\<open>str\<close>,
  \<^verbatim>\<open>Optional[List[Dict]]\<close> and \<^verbatim>\<open>Optional[str]\<close> and raises on a mismatch.
\<close>

fun is_dict :: "pyval \<Rightarrow> bool" where
  "is_dict (PDict kvs) = True"
| "is_dict v = False"

fun valid_str :: "pyval \<Rightarrow> exn + string" where
  "valid_str (PStr s) = Inr s"
| "valid_str v = Inl ValidationError"

fun valid_opt_str :: "pyval \<Rightarrow> exn + string option" where
  "valid_opt_str PNone = Inr None"
| "valid_opt_str (PStr s) = Inr (Some s)"
| "valid_opt_str v = Inl ValidationError"

fun valid_opt_dicts :: "pyval \<Rightarrow> exn + pyval list option" where
  "valid_opt_dicts PNone = Inr None"
| "valid_opt_dicts (PList xs) = (if list_all is_dict xs then Inr (Some xs) else Inl ValidationError)"
| "valid_opt_dicts v = Inl ValidationError"

definition new_ChatResponse :: "pyval \<Rightarrow> pyval \<Rightarrow> pyval \<Rightarrow> exn + ChatResponse" where
  "new_ChatResponse resp ctx prof =
     (case valid_str resp of
        Inl e \<Rightarrow> Inl e
      | Inr r \<Rightarrow>
         (case valid_opt_dicts ctx of
            Inl e \<Rightarrow> Inl e
          | Inr c \<Rightarrow>
             (case valid_opt_str prof of
                Inl e \<Rightarrow> Inl e
              | Inr p \<Rightarrow> Inr \<lparr>response = r, relevant_context = c, user_profile = p\<rparr>)))"

section \<open>Helper functions of the backend\<close>

definition PIONEER_BASE_URL :: string where
  "PIONEER_BASE_URL = ''https://api.fastino.ai''"

text \<open>
  \<^verbatim>\<open>register_pioneer_user\<close>: the traits hold the name and the timezone when they are
  given and not empty.  A status other than 200 raises an \<^verbatim>\<open>HTTPException\<close> that
  carries the upstream status and, after a fixed prefix, the upstream body; otherwise
  the parsed body is returned.  Nothing is caught here.
\<close>

definition register_payload :: "string \<Rightarrow> string option \<Rightarrow> string option \<Rightarrow> pyval" where
  "register_payload email' name' timezone' =
     PDict [(''email'', PStr email'),
            (''purpose'', PStr ''A personalized AI chat assistant that learns from conversations and adapts to user preferences''),
            (''traits'', PDict
               ((if truthy (opt_str name') then [(''name'', opt_str name')] else []) @
                (if truthy (opt_str timezone') then [(''timezone'', opt_str timezone')] else [])))]"

definition register_pioneer_user :: "world \<Rightarrow> string \<Rightarrow> string option \<Rightarrow> string option \<Rightarrow> pyval io" where
  "register_pioneer_user w email' name' timezone' =
     bind (client_post w (PIONEER_BASE_URL @ ''/register'') (register_payload email' name' timezone'))
       (\<lambda>resp.
          if status_code resp \<noteq> 200
          then raise (HTTPException (status_code resp)
                        (''Failed to register user with Pioneer: '' @ response_text resp))
          else lift (response_json resp))"

text \<open>
  \<^verbatim>\<open>get_user_summary\<close>: everything is inside \<^verbatim>\<open>try\<close>; a status other than 200
  and any exception are printed and give \<^verbatim>\<open>None\<close>.
\<close>

definition summary_params :: "string \<Rightarrow> int \<Rightarrow> pyval" where
  "summary_params uid max_chars = PDict [(''user_id'', PStr uid), (''max_chars'', PInt max_chars)]"

definition get_user_summary :: "world \<Rightarrow> string \<Rightarrow> int \<Rightarrow> pyval io" where
  "get_user_summary w uid max_chars =
     try_except
       (bind (client_get w (PIONEER_BASE_URL @ ''/summary'') (summary_params uid max_chars))
          (\<lambda>resp.
             if status_code resp = 200
             then bind (lift (response_json resp)) (\<lambda>data. lift (py_get data ''summary'' PNone))
             else bind (py_print (''[ERROR] Failed to get user summary. Status: '' @
                                  str_int (status_code resp) @ '', Response: '' @ response_text resp))
                    (\<lambda>_. ret PNone)))
       (\<lambda>e. bind (py_print (''[ERROR] Exception fetching user summary: '' @ str_exception w e))
                (\<lambda>_. ret PNone))"

text \<open>
  \<^verbatim>\<open>get_relevant_chunks\<close>: the history sent is the conversation reduced to role and
  content; a missing key raises inside the \<^verbatim>\<open>try\<close>.  A status other than 200 and
  any exception are printed and give the empty list.
\<close>

definition role_content :: "pyval \<Rightarrow> exn + pyval" where
  "role_content msg =
     (case py_getitem msg ''role'' of
        Inl e \<Rightarrow> Inl e
      | Inr r \<Rightarrow>
         (case py_getitem msg ''content'' of
            Inl e \<Rightarrow> Inl e
          | Inr c \<Rightarrow> Inr (PDict [(''role'', r), (''content'', c)])))"

definition chunks_payload :: "string \<Rightarrow> pyval list \<Rightarrow> int \<Rightarrow> pyval" where
  "chunks_payload uid history k =
     PDict [(''user_id'', PStr uid), (''history'', PList history), (''k'', PInt k),
            (''similarity_threshold'', PFloat (1 / 4))]"

definition get_relevant_chunks :: "world \<Rightarrow> string \<Rightarrow> pyval list \<Rightarrow> int \<Rightarrow> pyval io" where
  "get_relevant_chunks w uid conversation k =
     try_except
       (bind (lift (map_result role_content conversation))
          (\<lambda>history.
             bind (client_post w (PIONEER_BASE_URL @ ''/chunks'') (chunks_payload uid history k))
               (\<lambda>resp.
                  if status_code resp = 200
                  then bind (lift (response_json resp)) (\<lambda>data. lift (py_get data ''chunks'' (PList [])))
                  else bind (py_print (''[ERROR] Failed to get chunks. Status: '' @
                                       str_int (status_code resp) @ '', Response: '' @ response_text resp))
                         (\<lambda>_. ret (PList [])))))
       (\<lambda>e. bind (py_print (''[ERROR] Exception fetching chunks: '' @ str_exception w e))
                (\<lambda>_. ret (PList [])))"

text \<open>
  \<^verbatim>\<open>ingest_conversation\<close>: each message is rebuilt from its role, its content and
  \<^verbatim>\<open>msg.get("timestamp", now)\<close>.  The default is an argument, so the clock is read
  for every message, and it is used only when the key is missing.  The outcome of the
  call is printed; nothing is returned and every exception is caught.
\<close>

fun format_messages :: "world \<Rightarrow> pyval list \<Rightarrow> pyval list io" where
  "format_messages w [] = ret []"
| "format_messages w (msg # msgs) =
     bind (lift (py_getitem msg ''role'')) (\<lambda>r.
     bind (lift (py_getitem msg ''content'')) (\<lambda>c.
     bind (utcnow_z w) (\<lambda>now.
     bind (lift (py_get msg ''timestamp'' (PStr now))) (\<lambda>ts.
     bind (format_messages w msgs) (\<lambda>rest.
     ret (PDict [(''role'', r), (''content'', c), (''timestamp'', ts)] # rest))))))"

definition ingest_payload :: "string \<Rightarrow> pyval list \<Rightarrow> pyval" where
  "ingest_payload uid formatted_messages =
     PDict [(''user_id'', PStr uid), (''source'', PStr ''chat_app''),
            (''message_history'', PList formatted_messages),
            (''options'', PDict [(''dedupe'', PBool True)])]"

definition ingest_conversation :: "world \<Rightarrow> string \<Rightarrow> pyval list \<Rightarrow> unit io" where
  "ingest_conversation w uid msgs =
     try_except
       (bind (format_messages w msgs)
          (\<lambda>formatted_messages.
             bind (client_post w (PIONEER_BASE_URL @ ''/ingest'') (ingest_payload uid formatted_messages))
               (\<lambda>resp.
                  if status_code resp \<noteq> 200
                  then py_print (''[ERROR] Failed to ingest conversation. Status: '' @
                                 str_int (status_code resp) @ '', Response: '' @ response_text resp)
                  else py_print ''[SUCCESS] Conversation ingested successfully'')))
       (\<lambda>e. py_print (''[ERROR] Exception ingesting conversation: '' @ str_exception w e))"

text \<open>The tool declaration attached to every completion request.\<close>

definition QUERY_TOOL_DEFINITION :: pyval where
  "QUERY_TOOL_DEFINITION =
     PDict [(''type'', PStr ''function''),
            (''function'', PDict
               [(''name'', PStr ''query_user_knowledge''),
                (''description'', PStr ''Query the user's knowledge base to ask specific questions about their preferences, relationships, professional network, communication patterns, and other contextual information. Use this only when you need detailed information about the user that may not be in the general profile summary or messages''),
                (''parameters'', PDict
                   [(''type'', PStr ''object''),
                    (''properties'', PDict
                       [(''question'', PDict
                          [(''type'', PStr ''string''),
                           (''description'', PStr (''A specific question to ask about the user. Examples: 'Who are the most important people in the user's professional network?', 'What are the user's communication preferences?', 'What topics does the user discuss most frequently?'' @ [CHR 0x27]))])]),
                    (''required'', PList [PStr ''question''])])])]"

section \<open>The endpoints\<close>

text \<open>
  \<^verbatim>\<open>POST /register\<close>.  The whole body is inside \<^verbatim>\<open>try\<close>, and the handler
  \<^verbatim>\<open>except Exception as e\<close> turns whatever was raised, the helper's
  \<^verbatim>\<open>HTTPException\<close> included, into a new \<^verbatim>\<open>HTTPException\<close> with status 500 and
  detail \<^verbatim>\<open>str(e)\<close>.
\<close>

definition register_user :: "world \<Rightarrow> RegisterUserRequest \<Rightarrow> pyval io" where
  "register_user w request =
     try_except
       (bind (register_pioneer_user w (email request) (name request) (timezone request))
          (\<lambda>result.
             bind (lift (py_get result ''user_id'' PNone))
               (\<lambda>uid. ret (PDict [(''success'', PBool True), (''user_id'', uid),
                                   (''message'', PStr (''User '' @ email request @ '' registered successfully''))]))))
       (\<lambda>e. raise (HTTPException 500 (str_exception w e)))"

text \<open>
  \<^verbatim>\<open>POST /chat\<close>, in the order of the source: the guard on \<^verbatim>\<open>user_id\<close>, the
  profile summary, the conversation with the new user turn, the chunks, the system
  prompt, the user message with its context block, the completion, the assistant turn,
  the ingestion, the response.  The system prompt and the user message are the two
  blocks of the source that build them, as functions of the summary and of the chunks.
  The debug lines are printed where the source prints them; two of them evaluate
  \<^verbatim>\<open>user_summary[:100]\<close> and \<^verbatim>\<open>len(chunks)\<close> and raise when the value has
  no such operation.  The whole body is inside \<^verbatim>\<open>try\<close>;
  the handler \<^verbatim>\<open>except Exception as e\<close> raises an \<^verbatim>\<open>HTTPException\<close> with status
  500 for whatever was raised.
\<close>

definition system_prompt_of :: "world \<Rightarrow> pyval \<Rightarrow> string" where
  "system_prompt_of w user_summary =
     ''You are a helpful AI assistant.'' @
     (if truthy user_summary
      then ''\<newline>\<newline>User Profile:\<newline>'' @ format_value w user_summary @
           ''\<newline>\<newline>Keep the user's preferences and context in mind when responding.''
      else [])"

definition chunk_line :: "world \<Rightarrow> pyval \<Rightarrow> exn + string" where
  "chunk_line w chunk =
     (case py_getitem chunk ''text'' of Inl e \<Rightarrow> Inl e | Inr t \<Rightarrow> Inr (''- '' @ format_value w t))"

definition context_block :: "string list \<Rightarrow> string" where
  "context_block lines =
     ''\<newline>\<newline>[Relevant context from past conversations:\<newline>'' @ join ''\<newline>'' lines @ '']''"

definition user_message_of :: "world \<Rightarrow> string \<Rightarrow> pyval \<Rightarrow> exn + string" where
  "user_message_of w msg chunks =
     (if truthy chunks
      then (case py_iter chunks of
              Inl e \<Rightarrow> Inl e
            | Inr elems \<Rightarrow>
               (case map_result (chunk_line w) elems of
                  Inl e \<Rightarrow> Inl e
                | Inr lines \<Rightarrow> Inr (msg @ context_block lines)))
      else Inr msg)"

definition chat_messages :: "string \<Rightarrow> Message list \<Rightarrow> string \<Rightarrow> pyval list" where
  "chat_messages system_prompt history user_message =
     [PDict [(''role'', PStr ''system''), (''content'', PStr system_prompt)]] @
     map (\<lambda>msg. PDict [(''role'', PStr (role msg)), (''content'', PStr (content msg))]) history @
     [PDict [(''role'', PStr ''user''), (''content'', PStr user_message)]]"

definition chat_body :: "world \<Rightarrow> ChatRequest \<Rightarrow> ChatResponse io" where
  "chat_body w request =
     (if \<not> truthy (opt_str (user_id request))
      then raise (HTTPException 400 ''user_id is required. Please register on the frontend first.'')
      else
        let uid = the (user_id request) in
        bind (py_print (''[DEBUG] Processing chat for user_id: '' @ uid @ '', email: '' @
                        (case user_email request of None \<Rightarrow> ''None'' | Some e \<Rightarrow> e))) (\<lambda>_.
        bind (py_print (''[DEBUG] Fetching user summary for user_id: '' @ uid)) (\<lambda>_.
        bind (get_user_summary w uid 1000) (\<lambda>user_summary.
        bind (if truthy user_summary then lift (py_slice100 user_summary) else ret (PStr ''None'')) (\<lambda>shown.
        bind (py_print (''[DEBUG] User summary: '' @ format_value w shown)) (\<lambda>_.
        bind (utcnow_z w) (\<lambda>now.
        let conversation = map model_dump (conversation_history request) @
              [PDict [(''role'', PStr ''user''), (''content'', PStr (message request)),
                      (''timestamp'', PStr now)]] in
        bind (py_print (''[DEBUG] Fetching relevant chunks for user_id: '' @ uid)) (\<lambda>_.
        bind (get_relevant_chunks w uid conversation 5) (\<lambda>chunks.
        bind (lift (py_len chunks)) (\<lambda>n.
        bind (py_print (''[DEBUG] Retrieved '' @ str_nat n @ '' chunks'')) (\<lambda>_.
        bind (if truthy user_summary
              then py_print ''[DEBUG] Added user profile to system prompt'' else ret ()) (\<lambda>_.
        bind (lift (user_message_of w (message request) chunks)) (\<lambda>user_message.
        bind (if truthy chunks
              then py_print (''[DEBUG] Added '' @ str_nat n @ '' context chunks to user message'')
              else ret ()) (\<lambda>_.
        bind (openai_create w
                \<lparr>model = ''gpt-4.1'',
                 messages = chat_messages (system_prompt_of w user_summary)
                              (conversation_history request) user_message,
                 temperature = 7 / 10,
                 max_tokens = 1000,
                 tools = [QUERY_TOOL_DEFINITION]\<rparr>) (\<lambda>completion.
        bind (case choices completion of [] \<Rightarrow> raise IndexError | c # _ \<Rightarrow> ret (opt_str c)) (\<lambda>assistant_response.
        bind (utcnow_z w) (\<lambda>now'.
        let conversation' = conversation @
              [PDict [(''role'', PStr ''assistant''), (''content'', assistant_response),
                      (''timestamp'', PStr now')]] in
        bind (py_print (''[DEBUG] Ingesting conversation for user_id: '' @ uid)) (\<lambda>_.
        bind (ingest_conversation w uid conversation') (\<lambda>_.
        bind (py_print ''[DEBUG] Conversation ingestion completed'') (\<lambda>_.
        lift (new_ChatResponse assistant_response (if truthy chunks then chunks else PNone)
                user_summary)))))))))))))))))))))"

definition chat :: "world \<Rightarrow> ChatRequest \<Rightarrow> ChatResponse io" where
  "chat w request =
     try_except (chat_body w request)
       (\<lambda>e. raise (HTTPException 500 (''Error processing chat: '' @ str_exception w e)))"

section \<open>Outcomes of a fetch\<close>

text \<open>
  A fetch fails when the HTTP call raises (a timeout, a refused connection) or answers
  with a status other than 200.
\<close>

definition fetch_failed :: "exn + http_response \<Rightarrow> bool" where
  "fetch_failed outcome = (case outcome of Inl e \<Rightarrow> True | Inr resp \<Rightarrow> status_code resp \<noteq> 200)"

section \<open>Comparing two runs\<close>



section \<open>Concrete worlds and requests\<close>

text \<open>
  A world for the concrete runs below: each endpoint gives a fixed answer, the clock
  stands still, and \<^verbatim>\<open>str\<close> of an \<^verbatim>\<open>HTTPException\<close> is
  \<^verbatim>\<open>"{status_code}: {detail}"\<close> as Starlette prints it.
\<close>

fun example_str_exception :: "exn \<Rightarrow> string" where
  "example_str_exception (HTTPException st d) = str_int st @ '': '' @ d"
| "example_str_exception (ClientError m) = m"
| "example_str_exception (KeyError k) = k"
| "example_str_exception e = ''error''"

definition example_world ::
  "(exn + http_response) \<Rightarrow> (exn + http_response) \<Rightarrow> (exn + completion) \<Rightarrow>
   (exn + http_response) \<Rightarrow> (exn + http_response) \<Rightarrow> world" where
  "example_world summary chunks answer ingest registration =
     \<lparr>http_post = (\<lambda>url payload.
        if url = PIONEER_BASE_URL @ ''/chunks'' then chunks
        else if url = PIONEER_BASE_URL @ ''/ingest'' then ingest
        else registration),
      http_get = (\<lambda>url params. summary),
      completions_create = (\<lambda>rq. answer),
      utcnow_isoformat = (\<lambda>n. ''2025-01-01T09:30:00''),
      str_value = (\<lambda>v. ''?''),
      str_exception = example_str_exception\<rparr>"

definition ok_response :: "pyval \<Rightarrow> exn + http_response" where
  "ok_response v = Inr \<lparr>status_code = 200, response_text = ''{...}'', json = Some v\<rparr>"

definition error_response :: "int \<Rightarrow> string \<Rightarrow> exn + http_response" where
  "error_response st body = Inr \<lparr>status_code = st, response_text = body, json = None\<rparr>"

definition example_request :: ChatRequest where
  "example_request =
     \<lparr>message = ''How are you?'',
      conversation_history = [\<lparr>role = ''user'', content = ''Hi'', timestamp = None\<rparr>],
      user_id = Some ''u1'',
      user_email = Some ''ann@example.org''\<rparr>"

definition example_summary :: "exn + http_response" where
  "example_summary = ok_response (PDict [(''summary'', PStr ''Likes tea'')])"

definition example_chunks :: "exn + http_response" where
  "example_chunks =
     ok_response (PDict [(''chunks'', PList [PDict [(''text'', PStr ''has a cat'')],
                                           PDict [(''text'', PStr ''lives in Oslo'')]])])"

definition example_answer :: "exn + completion" where
  "example_answer = Inr \<lparr>choices = [Some ''Fine, thanks.'']\<rparr>"

definition happy_world :: world where
  "happy_world =
     example_world example_summary example_chunks example_answer
       (ok_response (PDict [])) (ok_response (PDict [(''user_id'', PStr ''u1'')]))"

text \<open>
  The completion request of the run in \<open>happy_world\<close>, a world whose completion service
  raises, one whose two fetches fail, and one whose summary is the empty string.
\<close>

definition example_completion_request :: completion_request where
  "example_completion_request =
     \<lparr>model = ''gpt-4.1'',
      messages =
        [PDict [(''role'', PStr ''system''),
                (''content'', PStr ''You are a helpful AI assistant.\<newline>\<newline>User Profile:\<newline>Likes tea\<newline>\<newline>Keep the user's preferences and context in mind when responding.'')],
         PDict [(''role'', PStr ''user''), (''content'', PStr ''Hi'')],
         PDict [(''role'', PStr ''user''),
                (''content'', PStr ''How are you?\<newline>\<newline>[Relevant context from past conversations:\<newline>- has a cat\<newline>- lives in Oslo]'')]],
      temperature = 7 / 10,
      max_tokens = 1000,
      tools = [QUERY_TOOL_DEFINITION]\<rparr>"

definition no_completion_world :: world where
  "no_completion_world =
     example_world example_summary example_chunks (Inl (ClientError ''rate limit exceeded''))
       (ok_response (PDict [])) (ok_response (PDict []))"

definition profile_down_world :: world where
  "profile_down_world =
     example_world (error_response 503 ''unavailable'') example_chunks example_answer
       (ok_response (PDict [])) (ok_response (PDict []))"

definition chunks_down_world :: world where
  "chunks_down_world =
     example_world example_summary (Inl (ClientError ''timed out'')) example_answer
       (ok_response (PDict [])) (ok_response (PDict []))"

definition empty_summary_world :: world where
  "empty_summary_world =
     example_world (ok_response (PDict [(''summary'', PStr '''')])) example_chunks example_answer
       (ok_response (PDict [])) (ok_response (PDict []))"

section \<open>Properties\<close>

lemmas io_defs = ret_def raise_def lift_def bind_def try_except_def py_print_def utcnow_z_def
  client_post_def client_get_def openai_create_def

lemmas example_defs = example_world_def ok_response_def error_response_def example_request_def
  example_summary_def example_chunks_def example_answer_def happy_world_def fresh_def
  PIONEER_BASE_URL_def example_completion_request_def

lemmas chat_defs = chat_def chat_body_def get_user_summary_def get_relevant_chunks_def
  ingest_conversation_def opt_str_def model_dump_def role_content_def response_json_def
  new_ChatResponse_def chunk_line_def user_message_of_def Let_def

text \<open>
  C1.  A chat request without \<^verbatim>\<open>user_id\<close> is rejected before any collaborator
  is called: the state, and with it the list of calls, is unchanged.  The rejection
  does not reach the caller with status 400, however: the \<^verbatim>\<open>HTTPException(400)\<close>
  is raised inside the \<^verbatim>\<open>try\<close> of \<^verbatim>\<open>chat\<close>, whose handler for
  \<^verbatim>\<open>Exception\<close> catches it and raises a new one with status 500.
\<close>

theorem chat_missing_user_id_is_500:
  "chat w (request\<lparr>user_id := None\<rparr>) s =
     (Inl (HTTPException 500
        (''Error processing chat: '' @
         str_exception w (HTTPException 400 ''user_id is required. Please register on the frontend first.''))),
      s)"
  by (simp add: chat_def chat_body_def io_defs opt_str_def)

text \<open>
  C2.  When Pioneer answers a registration with status 409, the helper raises an
  \<^verbatim>\<open>HTTPException\<close> with that status, and the handler of \<^verbatim>\<open>register_user\<close>
  replaces it by one with status 500 whose detail is \<^verbatim>\<open>str\<close> of the first: the
  caller never sees the upstream status as the status of the error.
\<close>

theorem register_upstream_409_is_500:
  "register_user (w\<lparr>http_post := \<lambda>url payload. Inr \<lparr>status_code = 409, response_text = body, json = j\<rparr>\<rparr>)
       request s =
     (Inl (HTTPException 500
        (str_exception w (HTTPException 409 (''Failed to register user with Pioneer: '' @ body)))),
      s\<lparr>calls := calls s @
           [HttpPost (PIONEER_BASE_URL @ ''/register'')
              (register_payload (email request) (name request) (timezone request))]\<rparr>)"
  by (simp add: register_user_def register_pioneer_user_def io_defs)

text \<open>
  C3.  A history message sent without a timestamp reaches the ingestion with the key
  \<^verbatim>\<open>timestamp\<close> present and \<^verbatim>\<open>None\<close> (\<^verbatim>\<open>model_dump\<close> writes every field),
  so \<^verbatim>\<open>msg.get("timestamp", now)\<close> returns \<^verbatim>\<open>None\<close> and the message is submitted
  without a timestamp.  The two turns the endpoint adds itself carry the clock's time.
\<close>

theorem ingest_submits_null_timestamp:
  "calls (snd (chat happy_world example_request fresh)) ! 3 =
     HttpPost ''https://api.fastino.ai/ingest''
       (PDict [(''user_id'', PStr ''u1''), (''source'', PStr ''chat_app''),
               (''message_history'', PList
                  [PDict [(''role'', PStr ''user''), (''content'', PStr ''Hi''), (''timestamp'', PNone)],
                   PDict [(''role'', PStr ''user''), (''content'', PStr ''How are you?''),
                          (''timestamp'', PStr ''2025-01-01T09:30:00Z'')],
                   PDict [(''role'', PStr ''assistant''), (''content'', PStr ''Fine, thanks.''),
                          (''timestamp'', PStr ''2025-01-01T09:30:00Z'')]]),
               (''options'', PDict [(''dedupe'', PBool True)])])"
  by (simp add: chat_defs io_defs example_defs ingest_payload_def)

text \<open>
  C10.  When Pioneer answers a registration with status 200 and a JSON object that has
  no \<^verbatim>\<open>user_id\<close>, the endpoint returns \<^verbatim>\<open>success: True\<close> with
  \<^verbatim>\<open>user_id: None\<close>.
\<close>

theorem register_success_without_user_id:
  assumes "http_post w (PIONEER_BASE_URL @ ''/register'')
             (register_payload (email request) (name request) (timezone request)) = Inr resp"
    and "status_code resp = 200"
    and "json resp = Some (PDict kvs)"
    and "map_of kvs ''user_id'' = None"
  shows "fst (register_user w request s) =
           Inr (PDict [(''success'', PBool True), (''user_id'', PNone),
                       (''message'', PStr (''User '' @ email request @ '' registered successfully''))])"
  using assms by (simp add: register_user_def register_pioneer_user_def io_defs response_json_def)

theorem register_success_without_user_id_witness:
  "fst (register_user
          (example_world example_summary example_chunks example_answer (ok_response (PDict []))
             (ok_response (PDict [(''status'', PStr ''created'')])))
          \<lparr>email = ''ann@example.org'', name = Some ''Ann'', timezone = None\<rparr> fresh) =
     Inr (PDict [(''success'', PBool True), (''user_id'', PNone),
                 (''message'', PStr ''User ann@example.org registered successfully'')])"
  using register_success_without_user_id
    [of "example_world example_summary example_chunks example_answer (ok_response (PDict []))
           (ok_response (PDict [(''status'', PStr ''created'')]))"
        "\<lparr>email = ''ann@example.org'', name = Some ''Ann'', timezone = None\<rparr>"
        "\<lparr>status_code = 200, response_text = ''{...}'', json = Some (PDict [(''status'', PStr ''created'')])\<rparr>"
        "[(''status'', PStr ''created'')]" fresh]
  by (simp add: example_defs)

subsection \<open>Runs that differ only in what is printed\<close>


























subsection \<open>What the fetches return and how a run of chat ends\<close>

lemma role_content_model_dump:
  "role_content (model_dump m) = Inr (PDict [(''role'', PStr (role m)), (''content'', PStr (content m))])"
  by (simp add: role_content_def model_dump_def)

lemma map_result_append:
  "map_result f (xs @ ys) =
     (case map_result f xs of Inl e \<Rightarrow> Inl e
      | Inr as \<Rightarrow> (case map_result f ys of Inl e \<Rightarrow> Inl e | Inr bs \<Rightarrow> Inr (as @ bs)))"
  by (induction xs) (simp_all split: sum.splits)

lemma role_content_conversation:
  "map_result role_content
     (map model_dump hist @ [PDict [(''role'', PStr ''user''), (''content'', PStr m), (''timestamp'', PStr t)]]) =
   Inr (map (\<lambda>msg. PDict [(''role'', PStr (role msg)), (''content'', PStr (content msg))]) hist @
        [PDict [(''role'', PStr ''user''), (''content'', PStr m)]])"
proof -
  have "map_result role_content (map model_dump hist) =
        Inr (map (\<lambda>x. PDict [(''role'', PStr (role x)), (''content'', PStr (content x))]) hist)"
    by (induction hist) (simp_all add: role_content_model_dump)
  then show ?thesis
    by (simp add: map_result_append role_content_def)
qed

lemma get_user_summary_run:
  "\<exists>v out.
     (\<forall>s. get_user_summary w uid mc s =
        (Inr v, s\<lparr>calls := calls s @ [HttpGet (PIONEER_BASE_URL @ ''/summary'') (summary_params uid mc)],
                  printed := printed s @ out\<rparr>)) \<and>
     (\<forall>e. http_get w (PIONEER_BASE_URL @ ''/summary'') (summary_params uid mc) = Inl e \<longrightarrow> v = PNone) \<and>
     (\<forall>resp. http_get w (PIONEER_BASE_URL @ ''/summary'') (summary_params uid mc) = Inr resp \<longrightarrow>
        v = (if status_code resp = 200
             then (case json resp of
                     Some (PDict kvs) \<Rightarrow> (case map_of kvs ''summary'' of None \<Rightarrow> PNone | Some x \<Rightarrow> x)
                   | _ \<Rightarrow> PNone)
             else PNone))"
proof (cases "http_get w (PIONEER_BASE_URL @ ''/summary'') (summary_params uid mc)")
  case (Inl e)
  then show ?thesis
    by (intro exI[of _ PNone] exI[of _ "[''[ERROR] Exception fetching user summary: '' @ str_exception w e]"])
       (simp add: get_user_summary_def io_defs)
next
  case (Inr resp)
  show ?thesis
  proof (cases "status_code resp = 200")
    case False
    with Inr show ?thesis
      by (intro exI[of _ PNone] exI[of _ "[''[ERROR] Failed to get user summary. Status: '' @
             str_int (status_code resp) @ '', Response: '' @ response_text resp]"])
         (simp add: get_user_summary_def io_defs)
  next
    case True
    show ?thesis
    proof (cases "response_json resp")
      case (Inl e)
      with Inr True show ?thesis
        by (intro exI[of _ PNone] exI[of _ "[''[ERROR] Exception fetching user summary: '' @ str_exception w e]"])
           (auto simp add: get_user_summary_def io_defs response_json_def split: option.splits)
    next
      case data: (Inr data)
      show ?thesis
      proof (cases "py_get data ''summary'' PNone")
        case (Inl e)
        with Inr True data show ?thesis
          by (intro exI[of _ PNone] exI[of _ "[''[ERROR] Exception fetching user summary: '' @ str_exception w e]"])
             (cases data; auto simp add: get_user_summary_def io_defs response_json_def split: option.splits)
      next
        case v: (Inr v)
        with Inr True data show ?thesis
          by (intro exI[of _ v] exI[of _ "[]"])
             (cases data; auto simp add: get_user_summary_def io_defs response_json_def split: option.splits)
      qed
    qed
  qed
qed

lemma get_relevant_chunks_run:
  "\<exists>c out.
     (\<forall>conv s. map_result role_content conv = Inr history \<longrightarrow>
        get_relevant_chunks w uid conv k s =
        (Inr c, s\<lparr>calls := calls s @ [HttpPost (PIONEER_BASE_URL @ ''/chunks'') (chunks_payload uid history k)],
                  printed := printed s @ out\<rparr>)) \<and>
     (\<forall>e. http_post w (PIONEER_BASE_URL @ ''/chunks'') (chunks_payload uid history k) = Inl e \<longrightarrow> c = PList []) \<and>
     (\<forall>resp. http_post w (PIONEER_BASE_URL @ ''/chunks'') (chunks_payload uid history k) = Inr resp \<longrightarrow>
        c = (if status_code resp = 200
             then (case json resp of
                     Some (PDict kvs) \<Rightarrow> (case map_of kvs ''chunks'' of None \<Rightarrow> PList [] | Some x \<Rightarrow> x)
                   | _ \<Rightarrow> PList [])
             else PList []))"
proof (cases "http_post w (PIONEER_BASE_URL @ ''/chunks'') (chunks_payload uid history k)")
  case (Inl e)
  then show ?thesis
    by (intro exI[of _ "PList []"] exI[of _ "[''[ERROR] Exception fetching chunks: '' @ str_exception w e]"])
       (simp add: get_relevant_chunks_def io_defs)
next
  case (Inr resp)
  show ?thesis
  proof (cases "status_code resp = 200")
    case False
    with Inr show ?thesis
      by (intro exI[of _ "PList []"] exI[of _ "[''[ERROR] Failed to get chunks. Status: '' @
             str_int (status_code resp) @ '', Response: '' @ response_text resp]"])
         (simp add: get_relevant_chunks_def io_defs)
  next
    case True
    show ?thesis
    proof (cases "response_json resp")
      case (Inl e)
      with Inr True show ?thesis
        by (intro exI[of _ "PList []"] exI[of _ "[''[ERROR] Exception fetching chunks: '' @ str_exception w e]"])
           (auto simp add: get_relevant_chunks_def io_defs response_json_def split: option.splits)
    next
      case data: (Inr data)
      show ?thesis
      proof (cases "py_get data ''chunks'' (PList [])")
        case (Inl e)
        with Inr True data show ?thesis
          by (intro exI[of _ "PList []"] exI[of _ "[''[ERROR] Exception fetching chunks: '' @ str_exception w e]"])
             (cases data; auto simp add: get_relevant_chunks_def io_defs response_json_def split: option.splits)
      next
        case v: (Inr v)
        with Inr True data show ?thesis
          by (intro exI[of _ v] exI[of _ "[]"])
             (cases data; auto simp add: get_relevant_chunks_def io_defs response_json_def split: option.splits)
      qed
    qed
  qed
qed

lemma format_messages_ok:
  assumes "\<And>m. m \<in> set msgs \<Longrightarrow> \<exists>kvs r c. m = PDict kvs \<and> map_of kvs ''role'' = Some r \<and> map_of kvs ''content'' = Some c"
  shows "\<exists>fm. format_messages w msgs s = (Inr fm, s\<lparr>ticks := ticks s + length msgs\<rparr>)"
  using assms
proof (induction msgs arbitrary: s)
  case Nil
  show ?case by (simp add: ret_def)
next
  case (Cons m msgs)
  from Cons.prems[of m] obtain kvs r c where
    m: "m = PDict kvs" "map_of kvs ''role'' = Some r" "map_of kvs ''content'' = Some c"
    by auto
  from Cons.IH[of "s\<lparr>ticks := Suc (ticks s)\<rparr>"] Cons.prems obtain fm where
    fm: "format_messages w msgs (s\<lparr>ticks := Suc (ticks s)\<rparr>) = (Inr fm, s\<lparr>ticks := Suc (ticks s) + length msgs\<rparr>)"
    by auto
  show ?case
    using m fm by (simp add: io_defs split: option.splits)
qed

lemma ingest_conversation_calls:
  assumes "\<And>m. m \<in> set msgs \<Longrightarrow> \<exists>kvs r c. m = PDict kvs \<and> map_of kvs ''role'' = Some r \<and> map_of kvs ''content'' = Some c"
    and "calls s = cs"
  shows "\<exists>p. ingest_conversation w uid msgs s = (Inr (), snd (ingest_conversation w uid msgs s)) \<and>
             calls (snd (ingest_conversation w uid msgs s)) = cs @ [HttpPost (PIONEER_BASE_URL @ ''/ingest'') p]"
proof -
  from format_messages_ok[OF assms(1), where w=w and s=s] obtain fm where
    "format_messages w msgs s = (Inr fm, s\<lparr>ticks := ticks s + length msgs\<rparr>)" by blast
  then show ?thesis
    using assms(2)
    by (intro exI[of _ "ingest_payload uid fm"])
       (auto simp: ingest_conversation_def io_defs split: sum.splits)
qed

lemma ingest_conversation_returns: "fst (ingest_conversation w uid msgs s) = Inr ()"
  by (cases "format_messages w msgs s")
     (auto simp: ingest_conversation_def bind_def try_except_def client_post_def py_print_def
           split: sum.splits)

lemma bind_fst_snd:
  "bind m f s = (case fst (m s) of Inl e \<Rightarrow> (Inl e, snd (m s)) | Inr x \<Rightarrow> f x (snd (m s)))"
  by (cases "m s") (simp add: bind_def split: sum.splits)

lemma conversation_keys:
  assumes "m \<in> set (map model_dump hist @
              [PDict [(''role'', PStr ''user''), (''content'', PStr msg), (''timestamp'', PStr t)],
               PDict [(''role'', PStr ''assistant''), (''content'', a), (''timestamp'', PStr t')]])"
  shows "\<exists>kvs r c. m = PDict kvs \<and> map_of kvs ''role'' = Some r \<and> map_of kvs ''content'' = Some c"
  using assms by (auto simp: model_dump_def)


lemma py_print_fst: "fst (py_print l s) = Inr ()"
  by (simp add: py_print_def)

lemma py_print_calls: "calls (snd (py_print l s)) = calls s"
  by (simp add: py_print_def)

lemma py_print_ticks: "ticks (snd (py_print l s)) = ticks s"
  by (simp add: py_print_def)

lemma py_print_cong: "py_print l = py_print l"
  by (rule refl)

lemma maybe_print_fst: "fst ((if b then py_print l else ret ()) s) = Inr ()"
  by (simp add: py_print_def ret_def)

lemma maybe_print_calls: "calls (snd ((if b then py_print l else ret ()) s)) = calls s"
  by (simp add: py_print_def ret_def)

lemma maybe_print_ticks: "ticks (snd ((if b then py_print l else ret ()) s)) = ticks s"
  by (simp add: py_print_def ret_def)

lemma ingest_calls3:
  assumes "\<And>m. m \<in> set msgs \<Longrightarrow> \<exists>kvs r c. m = PDict kvs \<and> map_of kvs ''role'' = Some r \<and> map_of kvs ''content'' = Some c"
    and "calls s = cs @ [x, y, z]"
  shows "\<exists>p. calls (snd (ingest_conversation w uid msgs s)) = cs @ [x, y, z, HttpPost (PIONEER_BASE_URL @ ''/ingest'') p]"
  using ingest_conversation_calls[OF assms(1), where s=s and cs="cs @ [x, y, z]" and w=w and uid=uid] assms(2)
  by auto

lemma ret_fst: "fst (ret x s) = Inr x" and ret_snd: "snd (ret x s) = s"
  and lift_fst: "fst (lift r s) = r" and lift_snd: "snd (lift r s) = s"
  and raise_fst: "fst (raise e s) = Inl e" and raise_snd: "snd (raise e s) = s"
  by (simp_all add: ret_def lift_def raise_def)

lemmas run_simps = chat_body_def Let_def ret_fst ret_snd lift_fst lift_snd raise_fst raise_snd
  utcnow_z_def openai_create_def
  bind_fst_snd ingest_conversation_returns py_print_fst py_print_calls py_print_ticks
  maybe_print_fst maybe_print_calls maybe_print_ticks

lemma chat_body_run:
  assumes u: "truthy (opt_str (user_id req))"
    and sv: "\<forall>s. get_user_summary w (the (user_id req)) 1000 s = (Inr v, s\<lparr>calls := calls s @ [G], printed := printed s @ out1\<rparr>)"
    and sc: "\<forall>s t. get_relevant_chunks w (the (user_id req))
                (map model_dump (conversation_history req) @
                 [PDict [(''role'', PStr ''user''), (''content'', PStr (message req)), (''timestamp'', PStr t)]]) 5 s =
              (Inr c, s\<lparr>calls := calls s @ [C], printed := printed s @ out2\<rparr>)"
  shows "\<exists>s'.
    (if truthy v \<and> isl (py_slice100 v)
     then chat_body w req s = (Inl (projl (py_slice100 v)), s') \<and> calls s' = calls s @ [G]
     else
      (case py_len c of
         Inl e \<Rightarrow> chat_body w req s = (Inl e, s') \<and> calls s' = calls s @ [G, C]
       | Inr n \<Rightarrow>
          (case user_message_of w (message req) c of
             Inl e \<Rightarrow> chat_body w req s = (Inl e, s') \<and> calls s' = calls s @ [G, C]
           | Inr um \<Rightarrow>
              (let rq = \<lparr>model = ''gpt-4.1'',
                         messages = chat_messages (system_prompt_of w v) (conversation_history req) um,
                         temperature = 7 / 10, max_tokens = 1000, tools = [QUERY_TOOL_DEFINITION]\<rparr>
               in case completions_create w rq of
                    Inl e \<Rightarrow> chat_body w req s = (Inl e, s') \<and> calls s' = calls s @ [G, C, CompletionsCreate rq]
                  | Inr cmp \<Rightarrow>
                     (case choices cmp of
                        [] \<Rightarrow> chat_body w req s = (Inl IndexError, s') \<and>
                              calls s' = calls s @ [G, C, CompletionsCreate rq]
                      | a # rest \<Rightarrow>
                          chat_body w req s =
                            (new_ChatResponse (opt_str a) (if truthy c then c else PNone) v, s') \<and>
                          (\<exists>p. calls s' = calls s @ [G, C, CompletionsCreate rq,
                                                     HttpPost (PIONEER_BASE_URL @ ''/ingest'') p]))))))"
proof (cases "truthy v \<and> isl (py_slice100 v)")
  case True
  then obtain e where e: "py_slice100 v = Inl e" by (cases "py_slice100 v") auto
  with True u show ?thesis
    by (simp add: run_simps sv[rule_format] cong: py_print_cong)
next
  case False
  then obtain x where tv: "truthy v \<Longrightarrow> py_slice100 v = Inr x"
    by (cases "py_slice100 v") auto
  show ?thesis
  proof (cases "py_len c")
    case (Inl e)
    with False u show ?thesis
      by (simp add: run_simps tv sv[rule_format] sc[rule_format] cong: py_print_cong)
  next
    case n: (Inr n)
    show ?thesis
    proof (cases "user_message_of w (message req) c")
      case (Inl e)
      with False u n show ?thesis
        by (simp add: run_simps tv sv[rule_format] sc[rule_format] cong: py_print_cong)
    next
      case um: (Inr um)
      define rq where "rq = \<lparr>model = ''gpt-4.1'',
                         messages = chat_messages (system_prompt_of w v) (conversation_history req) um,
                         temperature = 7 / 10, max_tokens = 1000, tools = [QUERY_TOOL_DEFINITION]\<rparr>"
      show ?thesis
      proof (cases "completions_create w rq")
        case (Inl e)
        with False u n um show ?thesis
          by (simp add: run_simps tv sv[rule_format] sc[rule_format] rq_def cong: py_print_cong)
      next
        case cmp: (Inr cmp)
        show ?thesis
        proof (cases "choices cmp")
          case Nil
          with False u n um cmp show ?thesis
            by (simp add: run_simps tv sv[rule_format] sc[rule_format] rq_def cong: py_print_cong)
        next
          case (Cons a rest)
          have post: "\<exists>p. calls (snd (ingest_conversation w uid
                   (map model_dump hist @
                    [PDict [(''role'', PStr ''user''), (''content'', PStr msg), (''timestamp'', PStr t)],
                     PDict [(''role'', PStr ''assistant''), (''content'', a'), (''timestamp'', PStr t')]]) s0)) =
                 calls s @ [G, C, K, HttpPost (PIONEER_BASE_URL @ ''/ingest'') p]"
            if "calls s0 = calls s @ [G, C, K]" for uid hist msg t a' t' s0 K
            by (rule ingest_calls3[OF conversation_keys that]) assumption
          from False u n um cmp Cons show ?thesis
            by (simp add: run_simps lift_def tv sv[rule_format] sc[rule_format] rq_def post
                     cong: py_print_cong)
        qed
      qed
    qed
  qed
qed

lemma chat_fetches:
  "\<exists>v c out1 out2.
     (\<forall>s. get_user_summary w uid 1000 s =
        (Inr v, s\<lparr>calls := calls s @ [HttpGet (PIONEER_BASE_URL @ ''/summary'') (summary_params uid 1000)],
                  printed := printed s @ out1\<rparr>)) \<and>
     (\<forall>e. http_get w (PIONEER_BASE_URL @ ''/summary'') (summary_params uid 1000) = Inl e \<longrightarrow> v = PNone) \<and>
     (\<forall>resp. http_get w (PIONEER_BASE_URL @ ''/summary'') (summary_params uid 1000) = Inr resp \<longrightarrow>
        v = (if status_code resp = 200
             then (case json resp of
                     Some (PDict kvs) \<Rightarrow> (case map_of kvs ''summary'' of None \<Rightarrow> PNone | Some x \<Rightarrow> x)
                   | _ \<Rightarrow> PNone)
             else PNone)) \<and>
     (\<forall>s t. get_relevant_chunks w uid
                (map model_dump hist @
                 [PDict [(''role'', PStr ''user''), (''content'', PStr msg), (''timestamp'', PStr t)]]) 5 s =
        (Inr c, s\<lparr>calls := calls s @ [HttpPost (PIONEER_BASE_URL @ ''/chunks'')
                    (chunks_payload uid
                       (map (\<lambda>m. PDict [(''role'', PStr (role m)), (''content'', PStr (content m))]) hist @
                        [PDict [(''role'', PStr ''user''), (''content'', PStr msg)]]) 5)],
                  printed := printed s @ out2\<rparr>)) \<and>
     (\<forall>e. http_post w (PIONEER_BASE_URL @ ''/chunks'')
            (chunks_payload uid
               (map (\<lambda>m. PDict [(''role'', PStr (role m)), (''content'', PStr (content m))]) hist @
                [PDict [(''role'', PStr ''user''), (''content'', PStr msg)]]) 5) = Inl e \<longrightarrow> c = PList []) \<and>
     (\<forall>resp. http_post w (PIONEER_BASE_URL @ ''/chunks'')
            (chunks_payload uid
               (map (\<lambda>m. PDict [(''role'', PStr (role m)), (''content'', PStr (content m))]) hist @
                [PDict [(''role'', PStr ''user''), (''content'', PStr msg)]]) 5) = Inr resp \<longrightarrow>
        c = (if status_code resp = 200
             then (case json resp of
                     Some (PDict kvs) \<Rightarrow> (case map_of kvs ''chunks'' of None \<Rightarrow> PList [] | Some x \<Rightarrow> x)
                   | _ \<Rightarrow> PList [])
             else PList []))"
proof -
  define H where "H = map (\<lambda>m. PDict [(''role'', PStr (role m)), (''content'', PStr (content m))]) hist @
                [PDict [(''role'', PStr ''user''), (''content'', PStr msg)]]"
  from get_user_summary_run[of w uid 1000] obtain v out1 where
    sv: "(\<forall>s. get_user_summary w uid 1000 s =
        (Inr v, s\<lparr>calls := calls s @ [HttpGet (PIONEER_BASE_URL @ ''/summary'') (summary_params uid 1000)],
                  printed := printed s @ out1\<rparr>)) \<and>
     (\<forall>e. http_get w (PIONEER_BASE_URL @ ''/summary'') (summary_params uid 1000) = Inl e \<longrightarrow> v = PNone) \<and>
     (\<forall>resp. http_get w (PIONEER_BASE_URL @ ''/summary'') (summary_params uid 1000) = Inr resp \<longrightarrow>
        v = (if status_code resp = 200
             then (case json resp of
                     Some (PDict kvs) \<Rightarrow> (case map_of kvs ''summary'' of None \<Rightarrow> PNone | Some x \<Rightarrow> x)
                   | _ \<Rightarrow> PNone)
             else PNone))"
    by blast
  from get_relevant_chunks_run[of H w uid 5] obtain c out2 where
    sc0: "\<forall>conv s. map_result role_content conv = Inr H \<longrightarrow>
        get_relevant_chunks w uid conv 5 s =
        (Inr c, s\<lparr>calls := calls s @ [HttpPost (PIONEER_BASE_URL @ ''/chunks'') (chunks_payload uid H 5)],
                  printed := printed s @ out2\<rparr>)"
    and c12: "(\<forall>e. http_post w (PIONEER_BASE_URL @ ''/chunks'') (chunks_payload uid H 5) = Inl e \<longrightarrow> c = PList []) \<and>
      (\<forall>resp. http_post w (PIONEER_BASE_URL @ ''/chunks'') (chunks_payload uid H 5) = Inr resp \<longrightarrow>
        c = (if status_code resp = 200
             then (case json resp of
                     Some (PDict kvs) \<Rightarrow> (case map_of kvs ''chunks'' of None \<Rightarrow> PList [] | Some x \<Rightarrow> x)
                   | _ \<Rightarrow> PList [])
             else PList []))"
    by blast
  have sc: "\<forall>s t. get_relevant_chunks w uid
                (map model_dump hist @
                 [PDict [(''role'', PStr ''user''), (''content'', PStr msg), (''timestamp'', PStr t)]]) 5 s =
              (Inr c, s\<lparr>calls := calls s @ [HttpPost (PIONEER_BASE_URL @ ''/chunks'') (chunks_payload uid H 5)],
                  printed := printed s @ out2\<rparr>)"
    using sc0 role_content_conversation[of hist msg] unfolding H_def by blast
  from sv sc c12 show ?thesis
    unfolding H_def by blast
qed

lemma chat_snd: "snd (chat w req s) = snd (chat_body w req s)"
  by (cases "chat_body w req s") (simp add: chat_def try_except_def raise_def split: sum.splits)

lemma chat_fst:
  "fst (chat w req s) =
     (case fst (chat_body w req s) of
        Inl e \<Rightarrow> Inl (HTTPException 500 (''Error processing chat: '' @ str_exception w e))
      | Inr r \<Rightarrow> Inr r)"
  by (cases "chat_body w req s") (simp add: chat_def try_except_def raise_def split: sum.splits)

lemma chat_body_no_user_id:
  "\<not> truthy (opt_str (user_id req)) \<Longrightarrow>
   chat_body w req s = (Inl (HTTPException 400 ''user_id is required. Please register on the frontend first.''), s)"
  by (simp add: chat_body_def raise_def)

lemma user_message_prefix: "user_message_of w msg c = Inr um \<Longrightarrow> \<exists>ctx. um = msg @ ctx"
  by (auto simp: user_message_of_def split: if_splits sum.splits)

lemma chunk_lines_texts:
  "map_result (chunk_line w) chunks = Inr lines \<Longrightarrow>
   \<exists>texts. map (\<lambda>ch. py_getitem ch ''text'') chunks = map Inr texts \<and>
           lines = map (\<lambda>t. ''- '' @ format_value w t) texts"
proof (induction chunks arbitrary: lines)
  case Nil
  then show ?case by simp
next
  case (Cons ch chunks)
  from Cons.prems obtain line rest where
    line: "chunk_line w ch = Inr line" and rest: "map_result (chunk_line w) chunks = Inr rest"
    and l0: "lines = line # rest"
    by (auto split: sum.splits)
  from line obtain t where t: "py_getitem ch ''text'' = Inr t" and "line = ''- '' @ format_value w t"
    by (auto simp: chunk_line_def split: sum.splits)
  with l0 have l: "lines = (''- '' @ format_value w t) # rest" by simp
  from Cons.IH[OF rest] obtain texts where
    "map (\<lambda>ch. py_getitem ch ''text'') chunks = map Inr texts" "rest = map (\<lambda>t. ''- '' @ format_value w t) texts"
    by blast
  with t l show ?case
    by (intro exI[of _ "t # texts"]) simp
qed

lemma user_message_truthy:
  assumes "user_message_of w msg c = Inr um" and "truthy c"
  shows "\<exists>chunks texts. c = PList chunks \<and>
           map (\<lambda>ch. py_getitem ch ''text'') chunks = map Inr texts \<and>
           um = msg @ context_block (map (\<lambda>t. ''- '' @ format_value w t) texts)"
proof (cases c)
  case (PList chunks)
  with assms obtain lines where "map_result (chunk_line w) chunks = Inr lines" "um = msg @ context_block lines"
    by (auto simp: user_message_of_def split: sum.splits)
  with chunk_lines_texts[of w chunks lines] PList show ?thesis by auto
next
  case (PStr str)
  with assms obtain ch rest where "str = ch # rest" by (cases str) auto
  with assms PStr show ?thesis
    by (auto simp: user_message_of_def chunk_line_def split: sum.splits)
next
  case (PDict kvs)
  with assms obtain kv rest where "kvs = kv # rest" by (cases kvs) auto
  with assms PDict show ?thesis
    by (auto simp: user_message_of_def chunk_line_def split: sum.splits)
qed (use assms in \<open>auto simp: user_message_of_def\<close>)

lemma user_message_falsy: "user_message_of w msg c = Inr um \<Longrightarrow> \<not> truthy c \<Longrightarrow> um = msg"
  by (simp add: user_message_of_def)

lemma getitem_dicts:
  "map (\<lambda>ch. py_getitem ch k) chunks = map Inr texts \<Longrightarrow> list_all is_dict chunks"
proof (induction chunks arbitrary: texts)
  case Nil
  show ?case by simp
next
  case (Cons ch chunks)
  from Cons.prems obtain t rest where "texts = t # rest" "py_getitem ch k = Inr t"
    "map (\<lambda>ch. py_getitem ch k) chunks = map Inr rest"
    by (cases texts) auto
  with Cons.IH[of rest] show ?case by (cases ch) auto
qed

subsection \<open>The concrete runs\<close>

lemma happy_calls:
  "calls (snd (chat happy_world example_request fresh)) =
     [HttpGet ''https://api.fastino.ai/summary'' (summary_params ''u1'' 1000),
      HttpPost ''https://api.fastino.ai/chunks''
        (chunks_payload ''u1''
           [PDict [(''role'', PStr ''user''), (''content'', PStr ''Hi'')],
            PDict [(''role'', PStr ''user''), (''content'', PStr ''How are you?'')]] 5),
      CompletionsCreate example_completion_request,
      HttpPost ''https://api.fastino.ai/ingest''
        (ingest_payload ''u1''
           [PDict [(''role'', PStr ''user''), (''content'', PStr ''Hi''), (''timestamp'', PNone)],
            PDict [(''role'', PStr ''user''), (''content'', PStr ''How are you?''),
                   (''timestamp'', PStr ''2025-01-01T09:30:00Z'')],
            PDict [(''role'', PStr ''assistant''), (''content'', PStr ''Fine, thanks.''),
                   (''timestamp'', PStr ''2025-01-01T09:30:00Z'')]])]"
  by (simp add: chat_defs io_defs example_defs system_prompt_of_def chat_messages_def
        context_block_def format_value_def)

lemma no_completion_calls:
  "calls (snd (chat no_completion_world example_request fresh)) =
     [HttpGet ''https://api.fastino.ai/summary'' (summary_params ''u1'' 1000),
      HttpPost ''https://api.fastino.ai/chunks''
        (chunks_payload ''u1''
           [PDict [(''role'', PStr ''user''), (''content'', PStr ''Hi'')],
            PDict [(''role'', PStr ''user''), (''content'', PStr ''How are you?'')]] 5),
      CompletionsCreate example_completion_request]"
  by (simp add: chat_defs io_defs example_defs no_completion_world_def system_prompt_of_def chat_messages_def
        context_block_def format_value_def)

subsection \<open>The chat flow\<close>

text \<open>
  C8.  Every completion request that \<^verbatim>\<open>chat\<close> issues carries the system message
  first, then the messages of \<^verbatim>\<open>conversation_history\<close> in their order, each reduced
  to role and content, then one user message that starts with the text of the request;
  its temperature is 0.7 and its maximum number of tokens is 1000.
\<close>

theorem completion_request_shape:
  assumes "CompletionsCreate rq \<in> set (calls (snd (chat w req fresh)))"
  shows "\<exists>profile_part context_part.
           messages rq =
             [PDict [(''role'', PStr ''system''),
                     (''content'', PStr (''You are a helpful AI assistant.'' @ profile_part))]] @
             map (\<lambda>m. PDict [(''role'', PStr (role m)), (''content'', PStr (content m))])
               (conversation_history req) @
             [PDict [(''role'', PStr ''user''), (''content'', PStr (message req @ context_part))]] \<and>
           temperature rq = 7 / 10 \<and> max_tokens rq = 1000"
proof (cases "truthy (opt_str (user_id req))")
  case False
  with assms show ?thesis
    by (simp add: chat_snd chat_body_no_user_id fresh_def)
next
  case True
  from chat_fetches[of w "the (user_id req)" "conversation_history req" "message req"]
  obtain v c out1 out2 where
    sv: "\<forall>s. get_user_summary w (the (user_id req)) 1000 s =
        (Inr v, s\<lparr>calls := calls s @ [HttpGet (PIONEER_BASE_URL @ ''/summary'') (summary_params (the (user_id req)) 1000)],
                  printed := printed s @ out1\<rparr>)"
    and sc: "\<forall>s t. get_relevant_chunks w (the (user_id req))
                (map model_dump (conversation_history req) @
                 [PDict [(''role'', PStr ''user''), (''content'', PStr (message req)), (''timestamp'', PStr t)]]) 5 s =
        (Inr c, s\<lparr>calls := calls s @ [HttpPost (PIONEER_BASE_URL @ ''/chunks'')
                    (chunks_payload (the (user_id req))
                       (map (\<lambda>m. PDict [(''role'', PStr (role m)), (''content'', PStr (content m))]) (conversation_history req) @
                        [PDict [(''role'', PStr ''user''), (''content'', PStr (message req))]]) 5)],
                  printed := printed s @ out2\<rparr>)"
    by blast
  have sp: "\<exists>pp. system_prompt_of w v = ''You are a helpful AI assistant.'' @ pp"
    by (simp add: system_prompt_of_def)
  from chat_body_run[OF True sv sc, of fresh] assms sp show ?thesis
    by (auto simp: chat_snd fresh_def Let_def chat_messages_def
             split: if_splits sum.splits list.splits dest!: user_message_prefix)
qed

theorem completion_request_shape_witness:
  "\<exists>profile_part context_part.
           messages example_completion_request =
             [PDict [(''role'', PStr ''system''),
                     (''content'', PStr (''You are a helpful AI assistant.'' @ profile_part))]] @
             map (\<lambda>m. PDict [(''role'', PStr (role m)), (''content'', PStr (content m))])
               (conversation_history example_request) @
             [PDict [(''role'', PStr ''user''), (''content'', PStr (message example_request @ context_part))]] \<and>
           temperature example_completion_request = 7 / 10 \<and> max_tokens example_completion_request = 1000"
proof -
  have "CompletionsCreate example_completion_request \<in> set (calls (snd (chat happy_world example_request fresh)))"
    by (simp add: happy_calls)
  then show ?thesis by (rule completion_request_shape)
qed

text \<open>
  C5.  When the completion call that \<^verbatim>\<open>chat\<close> issues raises, the caller gets an
  error (an \<^verbatim>\<open>HTTPException\<close> with status 500 that quotes the exception) and no
  call to the ingest endpoint is made.
\<close>

theorem completion_failure_is_error_without_ingest:
  assumes "CompletionsCreate rq \<in> set (calls (snd (chat w req fresh)))"
    and "completions_create w rq = Inl e"
  shows "fst (chat w req fresh) =
           Inl (HTTPException 500 (''Error processing chat: '' @ str_exception w e)) \<and>
         (\<forall>payload. HttpPost (PIONEER_BASE_URL @ ''/ingest'') payload \<notin> set (calls (snd (chat w req fresh))))"
proof (cases "truthy (opt_str (user_id req))")
  case False
  with assms show ?thesis
    by (simp add: chat_snd chat_body_no_user_id fresh_def)
next
  case True
  from chat_fetches[of w "the (user_id req)" "conversation_history req" "message req"]
  obtain v c out1 out2 where
    sv: "\<forall>s. get_user_summary w (the (user_id req)) 1000 s =
        (Inr v, s\<lparr>calls := calls s @ [HttpGet (PIONEER_BASE_URL @ ''/summary'') (summary_params (the (user_id req)) 1000)],
                  printed := printed s @ out1\<rparr>)"
    and sc: "\<forall>s t. get_relevant_chunks w (the (user_id req))
                (map model_dump (conversation_history req) @
                 [PDict [(''role'', PStr ''user''), (''content'', PStr (message req)), (''timestamp'', PStr t)]]) 5 s =
        (Inr c, s\<lparr>calls := calls s @ [HttpPost (PIONEER_BASE_URL @ ''/chunks'')
                    (chunks_payload (the (user_id req))
                       (map (\<lambda>m. PDict [(''role'', PStr (role m)), (''content'', PStr (content m))]) (conversation_history req) @
                        [PDict [(''role'', PStr ''user''), (''content'', PStr (message req))]]) 5)],
                  printed := printed s @ out2\<rparr>)"
    by blast
  from chat_body_run[OF True sv sc, of fresh] assms show ?thesis
    by (auto simp: chat_snd chat_fst fresh_def Let_def PIONEER_BASE_URL_def
             split: if_splits sum.splits list.splits)
qed

theorem completion_failure_is_error_without_ingest_witness:
  "fst (chat no_completion_world example_request fresh) =
     Inl (HTTPException 500 ''Error processing chat: rate limit exceeded'') \<and>
   (\<forall>payload. HttpPost (PIONEER_BASE_URL @ ''/ingest'') payload \<notin>
        set (calls (snd (chat no_completion_world example_request fresh))))"
proof -
  have mem: "CompletionsCreate example_completion_request \<in>
               set (calls (snd (chat no_completion_world example_request fresh)))"
    by (simp add: no_completion_calls)
  have fails: "completions_create no_completion_world example_completion_request =
                 Inl (ClientError ''rate limit exceeded'')"
    by (simp add: no_completion_world_def example_world_def)
  from completion_failure_is_error_without_ingest[OF mem fails] show ?thesis
    by (simp add: no_completion_world_def example_world_def)
qed

text \<open>
  C4.  For a request with a \<^verbatim>\<open>user_id\<close>.

  When the profile fetch fails, \<^verbatim>\<open>get_user_summary\<close> returns \<^verbatim>\<open>None\<close> and does
  not raise, and the flow goes on as it does without a profile: with \<open>c\<close> the value
  the chunk fetch returns, as soon as the rest of the flow succeeds (the length of \<open>c\<close>
  and the user message can be computed, and the completion service answers the request
  built from the bare system instruction with a first choice of text \<open>t\<close>),
  \<^verbatim>\<open>chat\<close> returns the response with that text \<open>t\<close>, the chunks \<open>c\<close> as context and
  \<^verbatim>\<open>user_profile\<close> \<^verbatim>\<open>None\<close>, after exactly four calls: the two fetches, the completion
  and the ingest.

  When the chunk fetch fails, \<^verbatim>\<open>get_relevant_chunks\<close> returns the empty list and does
  not raise, and the flow goes on as it does without chunks: with \<open>v\<close> the value the
  profile fetch returns, as soon as the rest of the flow succeeds (\<open>v\<close> is a string or
  \<^verbatim>\<open>None\<close>, and the completion service answers the request whose user message is the
  bare text of the request with a first choice of text \<open>t\<close>), \<^verbatim>\<open>chat\<close> returns the
  response with that text \<open>t\<close>, the profile \<open>v\<close> and \<^verbatim>\<open>relevant_context\<close>
  \<^verbatim>\<open>None\<close>, which is how the endpoint writes an empty context
  (\<^verbatim>\<open>chunks if chunks else None\<close>), after the same four calls.

  Nothing is asked of the fetch that did not fail: both may fail together, and the
  other one may answer 200 with any body with which the rest of the flow succeeds.
\<close>

theorem fetch_failures_degrade:
  fixes w :: world and req :: ChatRequest and s :: state
  defines "uid \<equiv> the (user_id req)"
    and "history \<equiv>
           map (\<lambda>m. PDict [(''role'', PStr (role m)), (''content'', PStr (content m))])
             (conversation_history req) @
           [PDict [(''role'', PStr ''user''), (''content'', PStr (message req))]]"
  assumes present: "truthy (opt_str (user_id req))"
  shows
   "(fetch_failed (http_get w (PIONEER_BASE_URL @ ''/summary'') (summary_params uid 1000)) \<longrightarrow>
       (\<forall>s0. fst (get_user_summary w uid 1000 s0) = Inr PNone) \<and>
       (\<exists>c. (\<forall>s0 t. fst (get_relevant_chunks w uid
                         (map model_dump (conversation_history req) @
                          [PDict [(''role'', PStr ''user''), (''content'', PStr (message req)),
                                  (''timestamp'', PStr t)]]) 5 s0) = Inr c) \<and>
            (\<forall>n um cmp t rest.
               py_len c = Inr n \<and> user_message_of w (message req) c = Inr um \<and>
               completions_create w
                 \<lparr>model = ''gpt-4.1'',
                  messages = chat_messages ''You are a helpful AI assistant.'' (conversation_history req) um,
                  temperature = 7 / 10, max_tokens = 1000, tools = [QUERY_TOOL_DEFINITION]\<rparr> = Inr cmp \<and>
               choices cmp = Some t # rest \<longrightarrow>
               (\<exists>s' p. chat w req s =
                          (Inr \<lparr>response = t,
                                relevant_context =
                                  (case c of PList cs \<Rightarrow> if cs = [] then None else Some cs | _ \<Rightarrow> None),
                                user_profile = None\<rparr>, s') \<and>
                        calls s' = calls s @
                          [HttpGet (PIONEER_BASE_URL @ ''/summary'') (summary_params uid 1000),
                           HttpPost (PIONEER_BASE_URL @ ''/chunks'') (chunks_payload uid history 5),
                           CompletionsCreate
                             \<lparr>model = ''gpt-4.1'',
                              messages = chat_messages ''You are a helpful AI assistant.''
                                           (conversation_history req) um,
                              temperature = 7 / 10, max_tokens = 1000, tools = [QUERY_TOOL_DEFINITION]\<rparr>,
                           HttpPost (PIONEER_BASE_URL @ ''/ingest'') p])))) \<and>
    (fetch_failed (http_post w (PIONEER_BASE_URL @ ''/chunks'') (chunks_payload uid history 5)) \<longrightarrow>
       (\<forall>s0 t. fst (get_relevant_chunks w uid
                         (map model_dump (conversation_history req) @
                          [PDict [(''role'', PStr ''user''), (''content'', PStr (message req)),
                                  (''timestamp'', PStr t)]]) 5 s0) = Inr (PList [])) \<and>
       (\<exists>v. (\<forall>s0. fst (get_user_summary w uid 1000 s0) = Inr v) \<and>
            (\<forall>prof cmp t rest.
               valid_opt_str v = Inr prof \<and>
               completions_create w
                 \<lparr>model = ''gpt-4.1'',
                  messages = chat_messages (system_prompt_of w v) (conversation_history req) (message req),
                  temperature = 7 / 10, max_tokens = 1000, tools = [QUERY_TOOL_DEFINITION]\<rparr> = Inr cmp \<and>
               choices cmp = Some t # rest \<longrightarrow>
               (\<exists>s' p. chat w req s =
                          (Inr \<lparr>response = t, relevant_context = None, user_profile = prof\<rparr>, s') \<and>
                        calls s' = calls s @
                          [HttpGet (PIONEER_BASE_URL @ ''/summary'') (summary_params uid 1000),
                           HttpPost (PIONEER_BASE_URL @ ''/chunks'') (chunks_payload uid history 5),
                           CompletionsCreate
                             \<lparr>model = ''gpt-4.1'',
                              messages = chat_messages (system_prompt_of w v)
                                           (conversation_history req) (message req),
                              temperature = 7 / 10, max_tokens = 1000, tools = [QUERY_TOOL_DEFINITION]\<rparr>,
                           HttpPost (PIONEER_BASE_URL @ ''/ingest'') p]))))"
proof -
  from chat_fetches[of w uid "conversation_history req" "message req"]
  obtain v c out1 out2 where
    sv: "\<forall>s. get_user_summary w uid 1000 s =
        (Inr v, s\<lparr>calls := calls s @ [HttpGet (PIONEER_BASE_URL @ ''/summary'') (summary_params uid 1000)],
                  printed := printed s @ out1\<rparr>)"
    and v1: "\<forall>e. http_get w (PIONEER_BASE_URL @ ''/summary'') (summary_params uid 1000) = Inl e \<longrightarrow> v = PNone"
    and v2: "\<forall>resp. http_get w (PIONEER_BASE_URL @ ''/summary'') (summary_params uid 1000) = Inr resp \<longrightarrow>
        v = (if status_code resp = 200
             then (case json resp of
                     Some (PDict kvs) \<Rightarrow> (case map_of kvs ''summary'' of None \<Rightarrow> PNone | Some x \<Rightarrow> x)
                   | _ \<Rightarrow> PNone)
             else PNone)"
    and sc: "\<forall>s t. get_relevant_chunks w uid
                (map model_dump (conversation_history req) @
                 [PDict [(''role'', PStr ''user''), (''content'', PStr (message req)), (''timestamp'', PStr t)]]) 5 s =
        (Inr c, s\<lparr>calls := calls s @ [HttpPost (PIONEER_BASE_URL @ ''/chunks'') (chunks_payload uid history 5)],
                  printed := printed s @ out2\<rparr>)"
    and c1: "\<forall>e. http_post w (PIONEER_BASE_URL @ ''/chunks'') (chunks_payload uid history 5) = Inl e \<longrightarrow> c = PList []"
    and c2: "\<forall>resp. http_post w (PIONEER_BASE_URL @ ''/chunks'') (chunks_payload uid history 5) = Inr resp \<longrightarrow>
        c = (if status_code resp = 200
             then (case json resp of
                     Some (PDict kvs) \<Rightarrow> (case map_of kvs ''chunks'' of None \<Rightarrow> PList [] | Some x \<Rightarrow> x)
                   | _ \<Rightarrow> PList [])
             else PList [])"
    unfolding history_def by blast
  have vfail: "v = PNone"
    if "fetch_failed (http_get w (PIONEER_BASE_URL @ ''/summary'') (summary_params uid 1000))"
    using that v1 v2
    by (cases "http_get w (PIONEER_BASE_URL @ ''/summary'') (summary_params uid 1000)")
       (auto simp: fetch_failed_def)
  have cfail: "c = PList []"
    if "fetch_failed (http_post w (PIONEER_BASE_URL @ ''/chunks'') (chunks_payload uid history 5))"
    using that c1 c2
    by (cases "http_post w (PIONEER_BASE_URL @ ''/chunks'') (chunks_payload uid history 5)")
       (auto simp: fetch_failed_def)
  have run: "\<exists>s' p. chat w req s = (new_ChatResponse (PStr t) (if truthy c then c else PNone) v, s') \<and>
                 calls s' = calls s @
                   [HttpGet (PIONEER_BASE_URL @ ''/summary'') (summary_params uid 1000),
                    HttpPost (PIONEER_BASE_URL @ ''/chunks'') (chunks_payload uid history 5),
                    CompletionsCreate
                      \<lparr>model = ''gpt-4.1'',
                       messages = chat_messages (system_prompt_of w v) (conversation_history req) um,
                       temperature = 7 / 10, max_tokens = 1000, tools = [QUERY_TOOL_DEFINITION]\<rparr>,
                    HttpPost (PIONEER_BASE_URL @ ''/ingest'') p]"
    if slice: "\<not> (truthy v \<and> isl (py_slice100 v))"
      and len: "py_len c = Inr n"
      and um: "user_message_of w (message req) c = Inr um"
      and cmp: "completions_create w
                 \<lparr>model = ''gpt-4.1'',
                  messages = chat_messages (system_prompt_of w v) (conversation_history req) um,
                  temperature = 7 / 10, max_tokens = 1000, tools = [QUERY_TOOL_DEFINITION]\<rparr> = Inr cmp"
      and ch: "choices cmp = Some t # rest"
      and ok: "new_ChatResponse (PStr t) (if truthy c then c else PNone) v = Inr r"
    for n um cmp t rest r
  proof -
    from chat_body_run[OF present sv[unfolded uid_def] sc[unfolded uid_def history_def], of s] slice len um cmp ch
    obtain s' p where
      "chat_body w req s = (new_ChatResponse (PStr t) (if truthy c then c else PNone) v, s')"
      "calls s' = calls s @
                   [HttpGet (PIONEER_BASE_URL @ ''/summary'') (summary_params uid 1000),
                    HttpPost (PIONEER_BASE_URL @ ''/chunks'') (chunks_payload uid history 5),
                    CompletionsCreate
                      \<lparr>model = ''gpt-4.1'',
                       messages = chat_messages (system_prompt_of w v) (conversation_history req) um,
                       temperature = 7 / 10, max_tokens = 1000, tools = [QUERY_TOOL_DEFINITION]\<rparr>,
                    HttpPost (PIONEER_BASE_URL @ ''/ingest'') p]"
      by (auto simp: Let_def opt_str_def uid_def history_def)
    with ok show ?thesis
      by (auto simp: chat_def try_except_def)
  qed
  have ctx: "valid_opt_dicts (if truthy c then c else PNone) =
               Inr (case c of PList cs \<Rightarrow> if cs = [] then None else Some cs | _ \<Rightarrow> None)"
    if um: "user_message_of w (message req) c = Inr um" for um
  proof (cases "truthy c")
    case True
    from user_message_truthy[OF um True] obtain chunks texts where
      "c = PList chunks" "map (\<lambda>ch. py_getitem ch ''text'') chunks = map Inr texts"
      by blast
    with True getitem_dicts[of "''text''" chunks texts] show ?thesis by auto
  next
    case False
    then show ?thesis by (cases c) auto
  qed
  show ?thesis
  proof (intro conjI impI)
    assume f: "fetch_failed (http_get w (PIONEER_BASE_URL @ ''/summary'') (summary_params uid 1000))"
    from sv vfail[OF f] show "\<forall>s0. fst (get_user_summary w uid 1000 s0) = Inr PNone" by simp
    have v: "v = PNone" by (rule vfail[OF f])
    have sp: "system_prompt_of w v = ''You are a helpful AI assistant.''"
      by (simp add: v system_prompt_of_def)
    show "\<exists>c. (\<forall>s0 t. fst (get_relevant_chunks w uid
                         (map model_dump (conversation_history req) @
                          [PDict [(''role'', PStr ''user''), (''content'', PStr (message req)),
                                  (''timestamp'', PStr t)]]) 5 s0) = Inr c) \<and>
            (\<forall>n um cmp t rest.
               py_len c = Inr n \<and> user_message_of w (message req) c = Inr um \<and>
               completions_create w
                 \<lparr>model = ''gpt-4.1'',
                  messages = chat_messages ''You are a helpful AI assistant.'' (conversation_history req) um,
                  temperature = 7 / 10, max_tokens = 1000, tools = [QUERY_TOOL_DEFINITION]\<rparr> = Inr cmp \<and>
               choices cmp = Some t # rest \<longrightarrow>
               (\<exists>s' p. chat w req s =
                          (Inr \<lparr>response = t,
                                relevant_context =
                                  (case c of PList cs \<Rightarrow> if cs = [] then None else Some cs | _ \<Rightarrow> None),
                                user_profile = None\<rparr>, s') \<and>
                        calls s' = calls s @
                          [HttpGet (PIONEER_BASE_URL @ ''/summary'') (summary_params uid 1000),
                           HttpPost (PIONEER_BASE_URL @ ''/chunks'') (chunks_payload uid history 5),
                           CompletionsCreate
                             \<lparr>model = ''gpt-4.1'',
                              messages = chat_messages ''You are a helpful AI assistant.''
                                           (conversation_history req) um,
                              temperature = 7 / 10, max_tokens = 1000, tools = [QUERY_TOOL_DEFINITION]\<rparr>,
                           HttpPost (PIONEER_BASE_URL @ ''/ingest'') p]))"
    proof (intro exI[of _ c] conjI allI impI)
      fix s0 t
      from sc show "fst (get_relevant_chunks w uid
                         (map model_dump (conversation_history req) @
                          [PDict [(''role'', PStr ''user''), (''content'', PStr (message req)),
                                  (''timestamp'', PStr t)]]) 5 s0) = Inr c" by simp
    next
      fix n um cmp t rest
      assume a: "py_len c = Inr n \<and> user_message_of w (message req) c = Inr um \<and>
               completions_create w
                 \<lparr>model = ''gpt-4.1'',
                  messages = chat_messages ''You are a helpful AI assistant.'' (conversation_history req) um,
                  temperature = 7 / 10, max_tokens = 1000, tools = [QUERY_TOOL_DEFINITION]\<rparr> = Inr cmp \<and>
               choices cmp = Some t # rest"
      have ok: "new_ChatResponse (PStr t) (if truthy c then c else PNone) v =
                  Inr \<lparr>response = t,
                       relevant_context =
                         (case c of PList cs \<Rightarrow> if cs = [] then None else Some cs | _ \<Rightarrow> None),
                       user_profile = None\<rparr>"
        using ctx[of um] a by (simp add: new_ChatResponse_def v)
      from run[of n um cmp t rest, OF _ _ _ _ _ ok] a v sp ok
      show "\<exists>s' p. chat w req s =
                          (Inr \<lparr>response = t,
                                relevant_context =
                                  (case c of PList cs \<Rightarrow> if cs = [] then None else Some cs | _ \<Rightarrow> None),
                                user_profile = None\<rparr>, s') \<and>
                        calls s' = calls s @
                          [HttpGet (PIONEER_BASE_URL @ ''/summary'') (summary_params uid 1000),
                           HttpPost (PIONEER_BASE_URL @ ''/chunks'') (chunks_payload uid history 5),
                           CompletionsCreate
                             \<lparr>model = ''gpt-4.1'',
                              messages = chat_messages ''You are a helpful AI assistant.''
                                           (conversation_history req) um,
                              temperature = 7 / 10, max_tokens = 1000, tools = [QUERY_TOOL_DEFINITION]\<rparr>,
                           HttpPost (PIONEER_BASE_URL @ ''/ingest'') p]"
        by simp
    qed
  next
    assume f: "fetch_failed (http_post w (PIONEER_BASE_URL @ ''/chunks'') (chunks_payload uid history 5))"
    have c: "c = PList []" by (rule cfail[OF f])
    from sc c show "\<forall>s0 t. fst (get_relevant_chunks w uid
                         (map model_dump (conversation_history req) @
                          [PDict [(''role'', PStr ''user''), (''content'', PStr (message req)),
                                  (''timestamp'', PStr t)]]) 5 s0) = Inr (PList [])" by simp
    show "\<exists>v. (\<forall>s0. fst (get_user_summary w uid 1000 s0) = Inr v) \<and>
            (\<forall>prof cmp t rest.
               valid_opt_str v = Inr prof \<and>
               completions_create w
                 \<lparr>model = ''gpt-4.1'',
                  messages = chat_messages (system_prompt_of w v) (conversation_history req) (message req),
                  temperature = 7 / 10, max_tokens = 1000, tools = [QUERY_TOOL_DEFINITION]\<rparr> = Inr cmp \<and>
               choices cmp = Some t # rest \<longrightarrow>
               (\<exists>s' p. chat w req s =
                          (Inr \<lparr>response = t, relevant_context = None, user_profile = prof\<rparr>, s') \<and>
                        calls s' = calls s @
                          [HttpGet (PIONEER_BASE_URL @ ''/summary'') (summary_params uid 1000),
                           HttpPost (PIONEER_BASE_URL @ ''/chunks'') (chunks_payload uid history 5),
                           CompletionsCreate
                             \<lparr>model = ''gpt-4.1'',
                              messages = chat_messages (system_prompt_of w v)
                                           (conversation_history req) (message req),
                              temperature = 7 / 10, max_tokens = 1000, tools = [QUERY_TOOL_DEFINITION]\<rparr>,
                           HttpPost (PIONEER_BASE_URL @ ''/ingest'') p]))"
    proof (intro exI[of _ v] conjI allI impI)
      fix s0
      from sv show "fst (get_user_summary w uid 1000 s0) = Inr v" by simp
    next
      fix prof cmp t rest
      assume a: "valid_opt_str v = Inr prof \<and>
               completions_create w
                 \<lparr>model = ''gpt-4.1'',
                  messages = chat_messages (system_prompt_of w v) (conversation_history req) (message req),
                  temperature = 7 / 10, max_tokens = 1000, tools = [QUERY_TOOL_DEFINITION]\<rparr> = Inr cmp \<and>
               choices cmp = Some t # rest"
      then have slice: "\<not> (truthy v \<and> isl (py_slice100 v))"
        by (cases v) auto
      have um: "user_message_of w (message req) c = Inr (message req)"
        by (simp add: c user_message_of_def)
      have ok: "new_ChatResponse (PStr t) (if truthy c then c else PNone) v =
                  Inr \<lparr>response = t, relevant_context = None, user_profile = prof\<rparr>"
        using a by (simp add: new_ChatResponse_def c)
      from run[of 0 "message req" cmp t rest, OF slice _ um _ _ ok] a c ok
      show "\<exists>s' p. chat w req s =
                          (Inr \<lparr>response = t, relevant_context = None, user_profile = prof\<rparr>, s') \<and>
                        calls s' = calls s @
                          [HttpGet (PIONEER_BASE_URL @ ''/summary'') (summary_params uid 1000),
                           HttpPost (PIONEER_BASE_URL @ ''/chunks'') (chunks_payload uid history 5),
                           CompletionsCreate
                             \<lparr>model = ''gpt-4.1'',
                              messages = chat_messages (system_prompt_of w v)
                                           (conversation_history req) (message req),
                              temperature = 7 / 10, max_tokens = 1000, tools = [QUERY_TOOL_DEFINITION]\<rparr>,
                           HttpPost (PIONEER_BASE_URL @ ''/ingest'') p]"
        by simp
    qed
  qed
qed

theorem fetch_failures_degrade_witness:
  "fst (chat profile_down_world example_request fresh) =
     Inr \<lparr>response = ''Fine, thanks.'',
          relevant_context = Some [PDict [(''text'', PStr ''has a cat'')],
                                   PDict [(''text'', PStr ''lives in Oslo'')]],
          user_profile = None\<rparr> \<and>
   fst (chat chunks_down_world example_request fresh) =
     Inr \<lparr>response = ''Fine, thanks.'', relevant_context = None, user_profile = Some ''Likes tea''\<rparr>"
proof -
  have present: "truthy (opt_str (user_id example_request))"
    by (simp add: example_request_def opt_str_def)
  have down1: "fetch_failed (http_get profile_down_world (PIONEER_BASE_URL @ ''/summary'')
                  (summary_params (the (user_id example_request)) 1000))"
    by (simp add: profile_down_world_def example_world_def error_response_def fetch_failed_def)
  from fetch_failures_degrade[OF present, of profile_down_world fresh] down1
  obtain c where
    tie: "\<forall>s0 t. fst (get_relevant_chunks profile_down_world (the (user_id example_request))
                         (map model_dump (conversation_history example_request) @
                          [PDict [(''role'', PStr ''user''), (''content'', PStr (message example_request)),
                                  (''timestamp'', PStr t)]]) 5 s0) = Inr c"
    and inner: "\<forall>n um cmp t rest.
               py_len c = Inr n \<and> user_message_of profile_down_world (message example_request) c = Inr um \<and>
               completions_create profile_down_world
                 \<lparr>model = ''gpt-4.1'',
                  messages = chat_messages ''You are a helpful AI assistant.'' (conversation_history example_request) um,
                  temperature = 7 / 10, max_tokens = 1000, tools = [QUERY_TOOL_DEFINITION]\<rparr> = Inr cmp \<and>
               choices cmp = Some t # rest \<longrightarrow>
               (\<exists>s' p. chat profile_down_world example_request fresh =
                          (Inr \<lparr>response = t,
                                relevant_context =
                                  (case c of PList cs \<Rightarrow> if cs = [] then None else Some cs | _ \<Rightarrow> None),
                                user_profile = None\<rparr>, s') \<and>
                        calls s' = calls fresh @
                          [HttpGet (PIONEER_BASE_URL @ ''/summary'') (summary_params (the (user_id example_request)) 1000),
                           HttpPost (PIONEER_BASE_URL @ ''/chunks'')
                             (chunks_payload (the (user_id example_request))
                                (map (\<lambda>m. PDict [(''role'', PStr (role m)), (''content'', PStr (content m))])
                                   (conversation_history example_request) @
                                 [PDict [(''role'', PStr ''user''), (''content'', PStr (message example_request))]]) 5),
                           CompletionsCreate
                             \<lparr>model = ''gpt-4.1'',
                              messages = chat_messages ''You are a helpful AI assistant.''
                                           (conversation_history example_request) um,
                              temperature = 7 / 10, max_tokens = 1000, tools = [QUERY_TOOL_DEFINITION]\<rparr>,
                           HttpPost (PIONEER_BASE_URL @ ''/ingest'') p])"
    by blast
  have c: "c = PList [PDict [(''text'', PStr ''has a cat'')], PDict [(''text'', PStr ''lives in Oslo'')]]"
    using tie[rule_format, of "''now''" fresh]
    by (simp add: get_relevant_chunks_def io_defs example_defs profile_down_world_def model_dump_def
          role_content_def response_json_def opt_str_def)
  have first: "fst (chat profile_down_world example_request fresh) =
     Inr \<lparr>response = ''Fine, thanks.'',
          relevant_context = Some [PDict [(''text'', PStr ''has a cat'')],
                                   PDict [(''text'', PStr ''lives in Oslo'')]],
          user_profile = None\<rparr>"
    using inner[rule_format, of 2
        "message example_request @ context_block [''- has a cat'', ''- lives in Oslo'']"
        "\<lparr>choices = [Some ''Fine, thanks.'']\<rparr>" "''Fine, thanks.''" "[]"]
    by (auto simp: c user_message_of_def chunk_line_def format_value_def profile_down_world_def
          example_world_def example_answer_def)
  have down2: "fetch_failed (http_post chunks_down_world (PIONEER_BASE_URL @ ''/chunks'')
                  (chunks_payload (the (user_id example_request))
                     (map (\<lambda>m. PDict [(''role'', PStr (role m)), (''content'', PStr (content m))])
                        (conversation_history example_request) @
                      [PDict [(''role'', PStr ''user''), (''content'', PStr (message example_request))]]) 5))"
    by (simp add: chunks_down_world_def example_world_def fetch_failed_def)
  from fetch_failures_degrade[OF present, of chunks_down_world fresh] down2
  obtain v where
    tie2: "\<forall>s0. fst (get_user_summary chunks_down_world (the (user_id example_request)) 1000 s0) = Inr v"
    and inner2: "\<forall>prof cmp t rest.
               valid_opt_str v = Inr prof \<and>
               completions_create chunks_down_world
                 \<lparr>model = ''gpt-4.1'',
                  messages = chat_messages (system_prompt_of chunks_down_world v)
                               (conversation_history example_request) (message example_request),
                  temperature = 7 / 10, max_tokens = 1000, tools = [QUERY_TOOL_DEFINITION]\<rparr> = Inr cmp \<and>
               choices cmp = Some t # rest \<longrightarrow>
               (\<exists>s' p. chat chunks_down_world example_request fresh =
                          (Inr \<lparr>response = t, relevant_context = None, user_profile = prof\<rparr>, s') \<and>
                        calls s' = calls fresh @
                          [HttpGet (PIONEER_BASE_URL @ ''/summary'') (summary_params (the (user_id example_request)) 1000),
                           HttpPost (PIONEER_BASE_URL @ ''/chunks'')
                             (chunks_payload (the (user_id example_request))
                                (map (\<lambda>m. PDict [(''role'', PStr (role m)), (''content'', PStr (content m))])
                                   (conversation_history example_request) @
                                 [PDict [(''role'', PStr ''user''), (''content'', PStr (message example_request))]]) 5),
                           CompletionsCreate
                             \<lparr>model = ''gpt-4.1'',
                              messages = chat_messages (system_prompt_of chunks_down_world v)
                                           (conversation_history example_request) (message example_request),
                              temperature = 7 / 10, max_tokens = 1000, tools = [QUERY_TOOL_DEFINITION]\<rparr>,
                           HttpPost (PIONEER_BASE_URL @ ''/ingest'') p])"
    by blast
  have v: "v = PStr ''Likes tea''"
    using tie2[rule_format, of fresh]
    by (simp add: get_user_summary_def io_defs example_defs chunks_down_world_def response_json_def)
  have second: "fst (chat chunks_down_world example_request fresh) =
     Inr \<lparr>response = ''Fine, thanks.'', relevant_context = None, user_profile = Some ''Likes tea''\<rparr>"
    using inner2[rule_format, of "Some ''Likes tea''"
        "\<lparr>choices = [Some ''Fine, thanks.'']\<rparr>" "''Fine, thanks.''" "[]"]
    by (auto simp: v chunks_down_world_def example_world_def example_answer_def)
  from first second show ?thesis by simp
qed

text \<open>
  C7, as amended.  For every completion request that \<^verbatim>\<open>chat\<close> issues, with \<open>v\<close>
  the value the profile fetch returned and \<open>c\<close> the value the chunk fetch returned:
  the system message is the base instruction, followed by the summary and the
  instruction to honour it exactly when \<open>v\<close> is true in Python's sense (neither
  \<^verbatim>\<open>None\<close> nor empty); the last message is the user message with the text of the
  request, followed exactly when \<open>c\<close> is true (a non-empty list) by the bracketed block
  of one line \<^verbatim>\<open>- text\<close> per chunk, joined by newlines.
\<close>

theorem prompt_assembly:
  assumes "CompletionsCreate rq \<in> set (calls (snd (chat w req fresh)))"
  shows "\<exists>v c.
     (\<forall>s. fst (get_user_summary w (the (user_id req)) 1000 s) = Inr v) \<and>
     (\<forall>s t. fst (get_relevant_chunks w (the (user_id req))
                (map model_dump (conversation_history req) @
                 [PDict [(''role'', PStr ''user''), (''content'', PStr (message req)),
                         (''timestamp'', PStr t)]]) 5 s) = Inr c) \<and>
     hd (messages rq) =
       PDict [(''role'', PStr ''system''),
              (''content'', PStr (''You are a helpful AI assistant.'' @
                 (if truthy v
                  then ''\<newline>\<newline>User Profile:\<newline>'' @ format_value w v @
                       ''\<newline>\<newline>Keep the user's preferences and context in mind when responding.''
                  else [])))] \<and>
     (if truthy c
      then \<exists>chunks texts.
             c = PList chunks \<and> chunks \<noteq> [] \<and>
             map (\<lambda>ch. py_getitem ch ''text'') chunks = map Inr texts \<and>
             last (messages rq) =
               PDict [(''role'', PStr ''user''),
                      (''content'', PStr (message req @
                         ''\<newline>\<newline>[Relevant context from past conversations:\<newline>'' @
                         join ''\<newline>'' (map (\<lambda>t. ''- '' @ format_value w t) texts) @ '']''))]
      else last (messages rq) = PDict [(''role'', PStr ''user''), (''content'', PStr (message req))])"
proof (cases "truthy (opt_str (user_id req))")
  case False
  with assms show ?thesis
    by (simp add: chat_snd chat_body_no_user_id fresh_def)
next
  case True
  from chat_fetches[of w "the (user_id req)" "conversation_history req" "message req"]
  obtain v c out1 out2 where
    sv: "\<forall>s. get_user_summary w (the (user_id req)) 1000 s =
        (Inr v, s\<lparr>calls := calls s @ [HttpGet (PIONEER_BASE_URL @ ''/summary'') (summary_params (the (user_id req)) 1000)],
                  printed := printed s @ out1\<rparr>)"
    and sc: "\<forall>s t. get_relevant_chunks w (the (user_id req))
                (map model_dump (conversation_history req) @
                 [PDict [(''role'', PStr ''user''), (''content'', PStr (message req)), (''timestamp'', PStr t)]]) 5 s =
        (Inr c, s\<lparr>calls := calls s @ [HttpPost (PIONEER_BASE_URL @ ''/chunks'')
                    (chunks_payload (the (user_id req))
                       (map (\<lambda>m. PDict [(''role'', PStr (role m)), (''content'', PStr (content m))]) (conversation_history req) @
                        [PDict [(''role'', PStr ''user''), (''content'', PStr (message req))]]) 5)],
                  printed := printed s @ out2\<rparr>)"
    by blast
  from chat_body_run[OF True sv sc, of fresh] assms
  obtain um where um: "user_message_of w (message req) c = Inr um"
    and rq: "rq = \<lparr>model = ''gpt-4.1'',
                   messages = chat_messages (system_prompt_of w v) (conversation_history req) um,
                   temperature = 7 / 10, max_tokens = 1000, tools = [QUERY_TOOL_DEFINITION]\<rparr>"
    by (auto simp: chat_snd fresh_def Let_def split: if_splits sum.splits list.splits)
  have h: "hd (messages rq) = PDict [(''role'', PStr ''system''), (''content'', PStr (system_prompt_of w v))]"
    and l: "last (messages rq) = PDict [(''role'', PStr ''user''), (''content'', PStr um)]"
    by (simp_all add: rq chat_messages_def)
  have user: "if truthy c
      then \<exists>chunks texts.
             c = PList chunks \<and> chunks \<noteq> [] \<and>
             map (\<lambda>ch. py_getitem ch ''text'') chunks = map Inr texts \<and>
             last (messages rq) =
               PDict [(''role'', PStr ''user''),
                      (''content'', PStr (message req @
                         ''\<newline>\<newline>[Relevant context from past conversations:\<newline>'' @
                         join ''\<newline>'' (map (\<lambda>t. ''- '' @ format_value w t) texts) @ '']''))]
      else last (messages rq) = PDict [(''role'', PStr ''user''), (''content'', PStr (message req))]"
  proof (cases "truthy c")
    case True
    from user_message_truthy[OF um True] obtain chunks texts where
      "c = PList chunks" "map (\<lambda>ch. py_getitem ch ''text'') chunks = map Inr texts"
      "um = message req @ context_block (map (\<lambda>t. ''- '' @ format_value w t) texts)"
      by blast
    with True l show ?thesis
      by (auto simp: context_block_def)
  next
    case False
    with user_message_falsy[OF um False] l show ?thesis by simp
  qed
  from sv sc h user show ?thesis
    by (intro exI[of _ v] exI[of _ c]) (simp add: system_prompt_of_def)
qed

theorem prompt_assembly_witness:
  "\<exists>v c.
     (\<forall>s. fst (get_user_summary happy_world (the (user_id example_request)) 1000 s) = Inr v) \<and>
     (\<forall>s t. fst (get_relevant_chunks happy_world (the (user_id example_request))
                (map model_dump (conversation_history example_request) @
                 [PDict [(''role'', PStr ''user''), (''content'', PStr (message example_request)),
                         (''timestamp'', PStr t)]]) 5 s) = Inr c) \<and>
     hd (messages example_completion_request) =
       PDict [(''role'', PStr ''system''),
              (''content'', PStr (''You are a helpful AI assistant.'' @
                 (if truthy v
                  then ''\<newline>\<newline>User Profile:\<newline>'' @ format_value happy_world v @
                       ''\<newline>\<newline>Keep the user's preferences and context in mind when responding.''
                  else [])))] \<and>
     (if truthy c
      then \<exists>chunks texts.
             c = PList chunks \<and> chunks \<noteq> [] \<and>
             map (\<lambda>ch. py_getitem ch ''text'') chunks = map Inr texts \<and>
             last (messages example_completion_request) =
               PDict [(''role'', PStr ''user''),
                      (''content'', PStr (message example_request @
                         ''\<newline>\<newline>[Relevant context from past conversations:\<newline>'' @
                         join ''\<newline>'' (map (\<lambda>t. ''- '' @ format_value happy_world t) texts) @ '']''))]
      else last (messages example_completion_request) =
             PDict [(''role'', PStr ''user''), (''content'', PStr (message example_request))])"
proof -
  have "CompletionsCreate example_completion_request \<in> set (calls (snd (chat happy_world example_request fresh)))"
    by (simp add: happy_calls)
  then show ?thesis by (rule prompt_assembly)
qed

text \<open>
  C7 as the specification states it fails for a summary that is present and empty: the
  profile fetch returns the empty string, the response reports it as \<^verbatim>\<open>user_profile\<close>,
  and the system message is the base instruction alone.
\<close>

theorem empty_summary_is_not_appended:
  "fst (get_user_summary empty_summary_world ''u1'' 1000 fresh) = Inr (PStr '''') \<and>
   fst (chat empty_summary_world example_request fresh) =
     Inr \<lparr>response = ''Fine, thanks.'',
          relevant_context = Some [PDict [(''text'', PStr ''has a cat'')],
                                   PDict [(''text'', PStr ''lives in Oslo'')]],
          user_profile = Some ''''\<rparr> \<and>
   calls (snd (chat empty_summary_world example_request fresh)) ! 2 =
     CompletionsCreate
       \<lparr>model = ''gpt-4.1'',
        messages =
          [PDict [(''role'', PStr ''system''), (''content'', PStr ''You are a helpful AI assistant.'')],
           PDict [(''role'', PStr ''user''), (''content'', PStr ''Hi'')],
           PDict [(''role'', PStr ''user''),
                  (''content'', PStr ''How are you?\<newline>\<newline>[Relevant context from past conversations:\<newline>- has a cat\<newline>- lives in Oslo]'')]],
        temperature = 7 / 10,
        max_tokens = 1000,
        tools = [QUERY_TOOL_DEFINITION]\<rparr>"
  by (simp add: chat_defs io_defs example_defs empty_summary_world_def system_prompt_of_def chat_messages_def
        context_block_def format_value_def)

end
